theory Spec2Isabelle
  imports Complex_Main "HOL-Library.FSet" "HOL-Library.AList"
begin

section \<open>Photo-Organizer: a shallow embedding of \<open>main.py\<close>\<close>

text \<open>
  The development follows \<open>src/main.py\<close> function by function. Conventions:
  \<^item> A Python float is a \<open>pyfloat\<close>: a finite value \<open>Fin r\<close> with exact
    arithmetic on the real \<open>r\<close>, or \<open>NaN\<close>, which propagates through arithmetic,
    is true, and is equal to nothing, itself included. Infinities and the
    rounding errors of float arithmetic are not modelled.
  \<^item> Python dictionaries are association lists read with \<open>map_of\<close>; the empty
    dictionary is \<open>[]\<close>, and \<open>d[k] = v\<close> is \<open>AList.update k v d\<close>.
  \<^item> Strings are \<open>string\<close> (lists of 8-bit characters).
  \<^item> Library functions that are not part of the repository
    (\<open>datetime.strptime\<close>, \<open>float\<close> on a string, the reverse geocoder, the
    availability of hachoir) are fields of an environment record \<open>env\<close>; every
    general theorem holds for every environment.
  \<^item> What the libraries report about one source file (its MD5 digest, its EXIF
    dictionary, its exported video metadata, its creation time, whether it can
    be copied) is a record \<open>media_file\<close>.
  \<^item> The module globals \<open>processed_files\<close> and \<open>location_cache\<close>, the
    file system and the messages written by \<open>logging\<close> form the record
    \<open>state\<close>, passed through every effectful function.
\<close>

subsection \<open>Python values and exceptions\<close>

datatype py_exn = ValueError | TypeError | ZeroDivisionError | OtherError

text \<open>Floats, with the arithmetic \<open>convert_to_degrees\<close> and \<open>get_gps_info\<close> use.\<close>

datatype pyfloat = Fin real | NaN

fun float_add :: "pyfloat \<Rightarrow> pyfloat \<Rightarrow> pyfloat" where
  "float_add (Fin x) (Fin y) = Fin (x + y)"
| "float_add x y = NaN"

fun float_div :: "pyfloat \<Rightarrow> real \<Rightarrow> pyfloat" where
  "float_div (Fin x) c = Fin (x / c)"
| "float_div NaN c = NaN"

fun float_neg :: "pyfloat \<Rightarrow> pyfloat" where
  "float_neg (Fin x) = Fin (- x)"
| "float_neg NaN = NaN"

text \<open>
  Values found in an EXIF dictionary. \<open>PyNum\<close> stands for every numeric object
  (\<open>int\<close>, \<open>float\<close>, \<open>IFDRational\<close>) whose \<open>float()\<close> is the given finite
  number; \<open>PyNaN\<close> for a numeric object whose \<open>float()\<close> is NaN (a float NaN,
  or a rational \<open>0/0\<close> as Pillow reads it); \<open>PySeq\<close> for a list or tuple;
  \<open>PyObj b e\<close> for an object of any other type with truth value \<open>b\<close> on which
  \<open>float()\<close> raises \<open>e\<close>.
\<close>

datatype pyval =
    PyNone
  | PyStr string
  | PyNum real
  | PyNaN
  | PySeq "pyval list"
  | PyDict "(string \<times> pyval) list"
  | PyObj bool py_exn

fun truthy :: "pyval \<Rightarrow> bool" where
  "truthy PyNone = False"
| "truthy (PyStr s) = (s \<noteq> [])"
| "truthy (PyNum r) = (r \<noteq> 0)"
| "truthy PyNaN = True"
| "truthy (PySeq xs) = (xs \<noteq> [])"
| "truthy (PyDict d) = (d \<noteq> [])"
| "truthy (PyObj b e) = b"

record datetime =
  year :: nat
  month :: nat
  day :: nat
  hour :: nat
  minute :: nat
  second :: nat

datatype geo_result =
    GeoRaises
  | GeoNothing
  | GeoLocation "(string \<times> string) list"

text \<open>
  The environment. \<open>strptime env s fmt\<close> is \<open>datetime.strptime(s, fmt)\<close>, \<open>None\<close>
  when it raises; \<open>float_of_str env s\<close> is \<open>float(s)\<close> on a string, \<open>None\<close> when
  it raises \<open>ValueError\<close>; \<open>reverse_geocode env n (lat, lon)\<close> is the outcome of
  the call \<open>geolocator.reverse((lat, lon), language='en')\<close> made after \<open>n\<close>
  earlier calls: an exception, a false value, or a location with the given
  \<open>address\<close> dictionary (\<open>[]\<close> when \<open>raw\<close> has none).
\<close>

record env =
  strptime :: "string \<Rightarrow> string \<Rightarrow> datetime option"
  float_of_str :: "string \<Rightarrow> pyfloat option"
  reverse_geocode :: "nat \<Rightarrow> pyfloat \<times> pyfloat \<Rightarrow> geo_result"
  HACHOIR_SUPPORT :: bool

subsection \<open>\<open>get_gps_info\<close> and \<open>convert_to_degrees\<close>\<close>

text \<open>Python's \<open>float(value)\<close>.\<close>

fun py_float :: "env \<Rightarrow> pyval \<Rightarrow> py_exn + pyfloat" where
  "py_float env (PyNum r) = Inr (Fin r)"
| "py_float env PyNaN = Inr NaN"
| "py_float env (PyStr s) =
     (case float_of_str env s of None \<Rightarrow> Inl ValueError | Some r \<Rightarrow> Inr r)"
| "py_float env (PyObj b e) = Inl e"
| "py_float env PyNone = Inl TypeError"
| "py_float env (PySeq xs) = Inl TypeError"
| "py_float env (PyDict d) = Inl TypeError"

text \<open>
  The body of the \<open>try\<close> block of \<open>convert_to_degrees\<close>: a list or tuple of at
  least three elements is read as degrees, minutes, seconds (evaluated in this
  order, the first exception wins); everything else goes through \<open>float\<close>.
\<close>

fun convert_try :: "env \<Rightarrow> pyval \<Rightarrow> py_exn + pyfloat" where
  "convert_try env (PySeq (v0 # v1 # v2 # rest)) =
     (case py_float env v0 of Inl e \<Rightarrow> Inl e | Inr d \<Rightarrow>
      (case py_float env v1 of Inl e \<Rightarrow> Inl e | Inr m \<Rightarrow>
       (case py_float env v2 of Inl e \<Rightarrow> Inl e | Inr s \<Rightarrow>
          Inr (float_add (float_add d (float_div m 60)) (float_div s 3600)))))"
| "convert_try env v = py_float env v"

text \<open>
  \<open>except (ValueError, TypeError, ZeroDivisionError): return 0.0\<close>; any other
  exception leaves the function.
\<close>

definition convert_to_degrees :: "env \<Rightarrow> pyval \<Rightarrow> py_exn + pyfloat" where
  "convert_to_degrees env v =
     (case convert_try env v of
        Inr r \<Rightarrow> Inr r
      | Inl e \<Rightarrow>
          if e = ValueError \<or> e = TypeError \<or> e = ZeroDivisionError then Inr (Fin 0)
          else Inl e)"

text \<open>\<open>d.get(k, default)\<close> on a dictionary.\<close>

definition dict_get :: "(string \<times> pyval) list \<Rightarrow> string \<Rightarrow> pyval \<Rightarrow> pyval" where
  "dict_get d k dflt = (case map_of d k of None \<Rightarrow> dflt | Some v \<Rightarrow> v)"

text \<open>
  \<open>get_gps_info\<close>. A \<open>GPSInfo\<close> value that is true but not a dictionary makes
  \<open>gps_info.get\<close> raise inside the \<open>try\<close>, which returns \<open>(None, None)\<close>, as
  does any exception that leaves \<open>convert_to_degrees\<close>.
\<close>

definition get_gps_info ::
  "env \<Rightarrow> (string \<times> pyval) list \<Rightarrow> pyfloat option \<times> pyfloat option" where
  "get_gps_info env exif_data =
     (let gps_info = dict_get exif_data ''GPSInfo'' PyNone in
      if \<not> truthy gps_info then (None, None)
      else
        (case gps_info of
           PyDict g \<Rightarrow>
             (let lat_ref = dict_get g ''GPSLatitudeRef'' (PyStr ''N'');
                  lat_data = dict_get g ''GPSLatitude'' PyNone
              in if truthy lat_data then
                   (case convert_to_degrees env lat_data of
                      Inl e \<Rightarrow> (None, None)
                    | Inr lat0 \<Rightarrow>
                        (let lat = (if lat_ref = PyStr ''S'' then float_neg lat0 else lat0);
                             lon_ref = dict_get g ''GPSLongitudeRef'' (PyStr ''E'');
                             lon_data = dict_get g ''GPSLongitude'' PyNone
                         in if truthy lon_data then
                              (case convert_to_degrees env lon_data of
                                 Inl e \<Rightarrow> (None, None)
                               | Inr lon0 \<Rightarrow>
                                   (Some lat,
                                    Some (if lon_ref = PyStr ''W'' then float_neg lon0
                                          else lon0)))
                            else (None, None)))
                 else (None, None))
         | _ \<Rightarrow> (None, None)))"

subsection \<open>Strings, paths and numerals\<close>

text \<open>\<open>s.startswith(sub)\<close> and \<open>sub in s\<close>.\<close>

definition starts_with :: "string \<Rightarrow> string \<Rightarrow> bool" where
  "starts_with sub s = (take (length sub) s = sub)"

fun py_in :: "string \<Rightarrow> string \<Rightarrow> bool" where
  "py_in sub [] = (sub = [])"
| "py_in sub (c # cs) = (starts_with sub (c # cs) \<or> py_in sub cs)"

text \<open>
  \<open>s.split(sep, 1)[1]\<close> for a non-empty separator: the text after the first
  occurrence of \<open>sep\<close>; \<open>None\<close> stands for the \<open>IndexError\<close> raised when
  \<open>sep\<close> does not occur.
\<close>

fun split_once_after :: "string \<Rightarrow> string \<Rightarrow> string option" where
  "split_once_after sep [] = None"
| "split_once_after sep (c # cs) =
     (if starts_with sep (c # cs) then Some (drop (length sep) (c # cs))
      else split_once_after sep cs)"

text \<open>\<open>s.lower()\<close> on ASCII letters.\<close>

definition lower_char :: "char \<Rightarrow> char" where
  "lower_char c =
     (case map_of (zip ''ABCDEFGHIJKLMNOPQRSTUVWXYZ'' ''abcdefghijklmnopqrstuvwxyz'') c of
        Some l \<Rightarrow> l
      | None \<Rightarrow> c)"

definition lower :: "string \<Rightarrow> string" where
  "lower s = map lower_char s"

text \<open>
  \<open>name.rfind('.')\<close>, and \<open>Path(p).suffix\<close> and \<open>Path(p).stem\<close> computed from
  the final path component as pathlib does (\<open>0 < i < len(name) - 1\<close>): the
  suffix starts at the last dot unless that dot is the first or the last
  character of the name.
\<close>

fun rfind_dot :: "string \<Rightarrow> nat option" where
  "rfind_dot [] = None"
| "rfind_dot (c # cs) =
     (case rfind_dot cs of
        Some i \<Rightarrow> Some (Suc i)
      | None \<Rightarrow> if c = CHR ''.'' then Some 0 else None)"

definition path_suffix :: "string \<Rightarrow> string" where
  "path_suffix nm =
     (case rfind_dot nm of
        Some i \<Rightarrow> if 0 < i \<and> i + 1 < length nm then drop i nm else []
      | None \<Rightarrow> [])"

definition path_stem :: "string \<Rightarrow> string" where
  "path_stem nm =
     (case rfind_dot nm of
        Some i \<Rightarrow> if 0 < i \<and> i + 1 < length nm then take i nm else nm
      | None \<Rightarrow> nm)"

text \<open>\<open>str(n)\<close> for a non-negative integer, and the value of a digit string.\<close>

definition digit_char :: "nat \<Rightarrow> char" where
  "digit_char d = ''0123456789'' ! d"

fun py_str :: "nat \<Rightarrow> string" where
  "py_str n = (if n < 10 then [digit_char n] else py_str (n div 10) @ [digit_char (n mod 10)])"

declare py_str.simps [simp del]

definition is_digit :: "char \<Rightarrow> bool" where
  "is_digit c = (48 \<le> (of_char c :: nat) \<and> (of_char c :: nat) \<le> 57)"

definition digit_val :: "char \<Rightarrow> nat" where
  "digit_val c = of_char c - 48"

definition digits_val :: "string \<Rightarrow> nat" where
  "digits_val s = foldl (\<lambda>acc c. 10 * acc + digit_val c) 0 s"

lemma digit_val_digit_char: "d < 10 \<Longrightarrow> digit_val (digit_char d) = d"
proof -
  assume "d < 10"
  then have "d \<in> {0, 1, 2, 3, 4, 5, 6, 7, 8, 9}" by auto
  then show ?thesis by (auto simp: digit_val_def digit_char_def)
qed

lemma digits_val_snoc: "digits_val (s @ [c]) = 10 * digits_val s + digit_val c"
  by (simp add: digits_val_def)

lemma digits_val_py_str: "digits_val (py_str n) = n"
proof (induction n rule: py_str.induct)
  case (1 n)
  show ?case
  proof (cases "n < 10")
    case True
    then show ?thesis by (simp add: py_str.simps [of n] digits_val_def digit_val_digit_char)
  next
    case False
    then show ?thesis using 1
      by (simp add: py_str.simps [of n] digits_val_snoc digit_val_digit_char)
  qed
qed

lemma py_str_inject: "py_str a = py_str b \<Longrightarrow> a = b"
  by (metis digits_val_py_str)

subsection \<open>Reference instances of the library parameters\<close>

text \<open>
  Concrete functions for the fields of \<open>env\<close>, used only to evaluate the model
  on closed examples; no general theorem refers to them.

  \<open>strptime_canonical\<close> reads a timestamp against a format made of the
  directives \<open>%Y %m %d %H %M %S\<close> and literal characters. It agrees with
  \<open>datetime.strptime\<close> on canonical fixed-width timestamps (four-digit year,
  two-digit fields, separators exactly as in the format). The library is more
  liberal (one-digit fields, runs of white space); such strings are rejected
  here.
\<close>

definition is_leap :: "nat \<Rightarrow> bool" where
  "is_leap y = (y mod 4 = 0 \<and> (y mod 100 \<noteq> 0 \<or> y mod 400 = 0))"

definition days_in_month :: "nat \<Rightarrow> nat \<Rightarrow> nat" where
  "days_in_month y m =
     (if m = 2 then (if is_leap y then 29 else 28)
      else if m = 4 \<or> m = 6 \<or> m = 9 \<or> m = 11 then 30 else 31)"

fun scan_fields :: "string \<Rightarrow> string \<Rightarrow> (char \<times> nat) list option" where
  "scan_fields (p # d # fmt) s =
     (if p = CHR ''%'' then
        (if (if d = CHR ''Y'' then 4 else 2) \<le> length s
            \<and> list_all is_digit (take (if d = CHR ''Y'' then 4 else 2) s)
         then
           (case scan_fields fmt (drop (if d = CHR ''Y'' then 4 else 2) s) of
              None \<Rightarrow> None
            | Some parsed \<Rightarrow>
                Some ((d, digits_val (take (if d = CHR ''Y'' then 4 else 2) s)) # parsed))
         else None)
      else
        (case s of
           [] \<Rightarrow> None
         | x # xs \<Rightarrow> if p = x then scan_fields (d # fmt) xs else None))"
| "scan_fields [p] s =
     (case s of [] \<Rightarrow> None | x # xs \<Rightarrow> if p = x \<and> xs = [] then Some [] else None)"
| "scan_fields [] s = (if s = [] then Some [] else None)"

definition strptime_canonical :: "string \<Rightarrow> string \<Rightarrow> datetime option" where
  "strptime_canonical s fmt =
     (case scan_fields fmt s of
        None \<Rightarrow> None
      | Some parsed \<Rightarrow>
          (case (map_of parsed CHR ''Y'', map_of parsed CHR ''m'', map_of parsed CHR ''d'',
                 map_of parsed CHR ''H'', map_of parsed CHR ''M'', map_of parsed CHR ''S'') of
             (Some y, Some m, Some d, Some H, Some M, Some S) \<Rightarrow>
               if 1 \<le> y \<and> 1 \<le> m \<and> m \<le> 12 \<and> 1 \<le> d \<and> d \<le> days_in_month y m
                  \<and> H < 24 \<and> M < 60 \<and> S < 60
               then Some \<lparr>year = y, month = m, day = d, hour = H, minute = M, second = S\<rparr>
               else None
           | _ \<Rightarrow> None))"

text \<open>
  \<open>float_of_digits\<close> agrees with \<open>float\<close> on non-empty strings of ASCII digits
  and rejects every other string.
\<close>

definition float_of_digits :: "string \<Rightarrow> pyfloat option" where
  "float_of_digits s =
     (if s \<noteq> [] \<and> list_all is_digit s then Some (Fin (real (digits_val s))) else None)"

text \<open>
  A geocoder that raises on a coordinate that is not finite (as geopy does
  when it builds the point) and answers every other call with the same address.
\<close>

definition reference_env :: env where
  "reference_env =
     \<lparr>strptime = strptime_canonical,
      float_of_str = float_of_digits,
      reverse_geocode =
        (\<lambda>n c. if fst c = NaN \<or> snd c = NaN then GeoRaises
                else GeoLocation [(''city'', ''New York''), (''country'', ''United States'')]),
      HACHOIR_SUPPORT = True\<rparr>"

subsection \<open>Source files and the metadata readers\<close>

text \<open>
  One file found by \<open>os.walk\<close>, with what the operating system and the
  libraries report about it: \<open>md5_hexdigest\<close> is the digest of its content
  (\<open>None\<close> when reading raises); \<open>exif_dict\<close> is the dictionary returned by
  \<open>get_exif_data\<close> (\<open>[]\<close> when the image has no EXIF or cannot be opened);
  \<open>plaintext\<close> is the list of lines of \<open>metadata.exportPlaintext()\<close>
  (\<open>None\<close> when hachoir finds no parser or no metadata, or raises);
  \<open>creation_time\<close> is \<open>os.path.getctime\<close> as a \<open>datetime\<close> (\<open>None\<close> when it
  raises); \<open>transfer_ok\<close> tells whether \<open>mkdir\<close> and \<open>shutil.copy2\<close> or
  \<open>shutil.move\<close> complete without an exception.
\<close>

record media_file =
  parent :: "string list"
  file_name :: string
  md5_hexdigest :: "string option"
  exif_dict :: "(string \<times> pyval) list"
  plaintext :: "string list option"
  creation_time :: "datetime option"
  transfer_ok :: bool

definition file_path :: "media_file \<Rightarrow> string list" where
  "file_path f = parent f @ [file_name f]"

definition calculate_file_hash :: "media_file \<Rightarrow> string option" where
  "calculate_file_hash f = md5_hexdigest f"

definition get_file_creation_date :: "media_file \<Rightarrow> datetime option" where
  "get_file_creation_date f = creation_time f"

definition get_exif_data :: "media_file \<Rightarrow> (string \<times> pyval) list" where
  "get_exif_data f = exif_dict f"

text \<open>
  The loop of \<open>get_video_metadata\<close> over the exported lines: every line that
  contains \<open>Creation date\<close> or \<open>Date\<close> and splits at \<open>: \<close> assigns
  \<open>video_data['creation_date']\<close>; a line that does not split is skipped.
\<close>

definition is_date_line :: "string \<Rightarrow> bool" where
  "is_date_line line = (py_in ''Creation date'' line \<or> py_in ''Date'' line)"

fun scan_metadata_lines :: "string list \<Rightarrow> (string \<times> string) list \<Rightarrow> (string \<times> string) list" where
  "scan_metadata_lines [] video_data = video_data"
| "scan_metadata_lines (line # rest) video_data =
     (if is_date_line line then
        (case split_once_after '': '' line of
           Some date_str \<Rightarrow>
             scan_metadata_lines rest (AList.update ''creation_date'' date_str video_data)
         | None \<Rightarrow> scan_metadata_lines rest video_data)
      else scan_metadata_lines rest video_data)"

definition get_video_metadata :: "env \<Rightarrow> media_file \<Rightarrow> (string \<times> string) list" where
  "get_video_metadata env f =
     (if \<not> HACHOIR_SUPPORT env then []
      else
        (case plaintext f of
           None \<Rightarrow> []
         | Some lines \<Rightarrow> scan_metadata_lines lines []))"

subsection \<open>\<open>get_date_taken\<close>\<close>

text \<open>
  One round of the loop over the EXIF date tags:
  \<open>datetime.strptime(exif_data[date_tag], '%Y:%m:%d %H:%M:%S')\<close> when the tag
  is in the dictionary; \<open>None\<close> when the tag is missing or \<open>strptime\<close> raises
  (the value is not a string, or does not match the format).
\<close>

definition parse_date_tag :: "env \<Rightarrow> (string \<times> pyval) list \<Rightarrow> string \<Rightarrow> datetime option" where
  "parse_date_tag env exif_data date_tag =
     (case map_of exif_data date_tag of
        Some (PyStr s) \<Rightarrow> strptime env s ''%Y:%m:%d %H:%M:%S''
      | _ \<Rightarrow> None)"

text \<open>
  The loop itself: a tag that gives no date is skipped (\<open>continue\<close>); the first
  parsed value is returned.
\<close>

fun exif_date_loop :: "env \<Rightarrow> (string \<times> pyval) list \<Rightarrow> string list \<Rightarrow> datetime option" where
  "exif_date_loop env exif_data [] = None"
| "exif_date_loop env exif_data (date_tag # rest) =
     (case parse_date_tag env exif_data date_tag of
        Some d \<Rightarrow> Some d
      | None \<Rightarrow> exif_date_loop env exif_data rest)"

text \<open>The loop over the video date formats.\<close>

fun video_format_loop :: "env \<Rightarrow> string \<Rightarrow> string list \<Rightarrow> datetime option" where
  "video_format_loop env date_str [] = None"
| "video_format_loop env date_str (fmt # rest) =
     (case strptime env (takeWhile (\<lambda>c. c \<noteq> CHR ''.'') date_str) fmt of
        Some d \<Rightarrow> Some d
      | None \<Rightarrow> video_format_loop env date_str rest)"

definition get_date_taken ::
  "env \<Rightarrow> media_file \<Rightarrow> (string \<times> pyval) list \<Rightarrow> (string \<times> string) list \<Rightarrow> datetime option" where
  "get_date_taken env f exif_data video_data =
     (case (if exif_data \<noteq> []
            then exif_date_loop env exif_data
                   [''DateTimeOriginal'', ''DateTime'', ''DateTimeDigitized'']
            else None) of
        Some d \<Rightarrow> Some d
      | None \<Rightarrow>
          (case (if video_data \<noteq> [] then map_of video_data ''creation_date'' else None) of
             Some date_str \<Rightarrow>
               (case video_format_loop env date_str
                       [''%Y-%m-%d %H:%M:%S'', ''%Y:%m:%d %H:%M:%S'', ''%Y-%m-%dT%H:%M:%S''] of
                  Some d \<Rightarrow> Some d
                | None \<Rightarrow> get_file_creation_date f)
           | None \<Rightarrow> get_file_creation_date f))"

subsection \<open>The run state and \<open>get_location_name\<close>\<close>

datatype event =
    Skipping "string list"
  | Moved "string list" "string list"
  | Copied "string list" "string list"
  | Failed "string list"
  | SourceMissing
  | NoMedia
  | Found nat
  | Summary nat nat

text \<open>
  \<open>processed_files\<close> and \<open>location_cache\<close> are the module globals;
  \<open>existing\<close> is the set of paths for which \<open>Path.exists()\<close> holds (a path is
  the list of its components); \<open>requests\<close> lists the coordinates passed to
  \<open>geolocator.reverse\<close>, call by call, oldest first; \<open>logged\<close> lists the messages of \<open>logging\<close>
  written by \<open>process_file\<close> and \<open>organize_media\<close>, oldest first (the error
  messages of the metadata readers are left out: the readers return their
  default and nothing else depends on the message).
\<close>

record state =
  processed_files :: "string set"
  location_cache :: "pyfloat \<times> pyfloat \<rightharpoonup> string"
  existing :: "string list fset"
  requests :: "(pyfloat \<times> pyfloat) list"
  logged :: "event list"

definition initial_state :: "string list fset \<Rightarrow> state" where
  "initial_state fs =
     \<lparr>processed_files = {}, location_cache = Map.empty, existing = fs,
      requests = [], logged = []\<rparr>"

text \<open>
  \<open>round(x, 3)\<close>: the nearest multiple of \<open>1/1000\<close>, a tie going to the even
  one; \<open>round(nan, 3)\<close> is NaN.
\<close>

definition py_round3 :: "real \<Rightarrow> real" where
  "py_round3 x =
     (let y = x * 1000; f = \<lfloor>y\<rfloor>; d = y - of_int f
      in (if d < 1 / 2 then of_int f
          else if 1 / 2 < d then of_int (f + 1)
          else if even f then of_int f else of_int (f + 1)) / 1000)"

fun float_round3 :: "pyfloat \<Rightarrow> pyfloat" where
  "float_round3 (Fin x) = Fin (py_round3 x)"
| "float_round3 NaN = NaN"

definition cache_key :: "pyfloat \<times> pyfloat \<Rightarrow> pyfloat \<times> pyfloat" where
  "cache_key c = (float_round3 (fst c), float_round3 (snd c))"

text \<open>
  The dictionary look-up \<open>cache_key in location_cache\<close> and
  \<open>location_cache[cache_key]\<close>. \<open>round\<close> returns a new float object, and a NaN
  is not equal to any float, so a key with a NaN component is never found, also
  after an entry has been stored under it; every other key is found by value.
\<close>

definition cache_get :: "(pyfloat \<times> pyfloat \<rightharpoonup> string) \<Rightarrow> pyfloat \<times> pyfloat \<Rightarrow> string option" where
  "cache_get cache k = (if fst k = NaN \<or> snd k = NaN then None else cache k)"

text \<open>\<open>a.get(k1) or a.get(k2) or ...\<close>: the first value that is true.\<close>

fun first_truthy :: "(string \<times> string) list \<Rightarrow> string list \<Rightarrow> string option" where
  "first_truthy address [] = None"
| "first_truthy address (k # ks) =
     (case map_of address k of
        Some v \<Rightarrow> if v \<noteq> [] then Some v else first_truthy address ks
      | None \<Rightarrow> first_truthy address ks)"

text \<open>\<open>s.replace(" ", "_").replace(",", "")\<close>.\<close>

definition clean_name :: "string \<Rightarrow> string" where
  "clean_name s =
     filter (\<lambda>c. c \<noteq> CHR '','') (map (\<lambda>c. if c = CHR '' '' then CHR ''_'' else c) s)"

definition compose_name :: "(string \<times> string) list \<Rightarrow> string" where
  "compose_name address =
     (let city = first_truthy address
                   [''city'', ''town'', ''village'', ''suburb'', ''neighbourhood'',
                    ''county'', ''state''];
          country = first_truthy address [''country''];
          city_name = (case city of Some c \<Rightarrow> clean_name c | None \<Rightarrow> ''Unknown'');
          country_name = (case country of Some c \<Rightarrow> clean_name c | None \<Rightarrow> ''Unknown'')
      in city_name @ ''_'' @ country_name)"

text \<open>
  The truth value of an optional float: \<open>None\<close> and \<open>0.0\<close> are false, every
  other float is true, NaN included.
\<close>

definition float_truthy :: "pyfloat option \<Rightarrow> bool" where
  "float_truthy x = (case x of None \<Rightarrow> False | Some (Fin r) \<Rightarrow> r \<noteq> 0 | Some NaN \<Rightarrow> True)"

text \<open>
  \<open>get_location_name\<close>. Every path that calls the geocoder stores an entry
  under the rounded key: the composed name when a location comes back, the
  sentinel otherwise (the call raised, or returned nothing). The one-second
  \<open>sleep\<close> after a successful request is a delay only and is not modelled.
\<close>

definition get_location_name ::
  "env \<Rightarrow> pyfloat option \<Rightarrow> pyfloat option \<Rightarrow> state \<Rightarrow> string \<times> state" where
  "get_location_name env lat lon st =
     (case (lat, lon) of
        (Some la, Some lo) \<Rightarrow>
          if \<not> float_truthy lat \<or> \<not> float_truthy lon then (''Unknown_Location'', st)
          else
            (case cache_get (location_cache st) (cache_key (la, lo)) of
               Some cached \<Rightarrow> (cached, st)
             | None \<Rightarrow>
                 (let asked = st\<lparr>requests := requests st @ [(la, lo)]\<rparr> in
                  case reverse_geocode env (length (requests st)) (la, lo) of
                    GeoLocation address \<Rightarrow>
                      (compose_name address,
                       asked\<lparr>location_cache :=
                                (location_cache st)(cache_key (la, lo) \<mapsto> compose_name address)\<rparr>)
                  | _ \<Rightarrow>
                      (''Unknown_Location'',
                       asked\<lparr>location_cache :=
                                (location_cache st)(cache_key (la, lo) \<mapsto> ''Unknown_Location'')\<rparr>)))
      | _ \<Rightarrow> (''Unknown_Location'', st))"

text \<open>
  A property of states used to state that no rounded key without a NaN
  component is requested twice: the requests issued so far for such keys have
  pairwise different keys, and each of these keys has an entry in the cache.
\<close>

definition no_nan :: "pyfloat \<times> pyfloat \<Rightarrow> bool" where
  "no_nan k = (fst k \<noteq> NaN \<and> snd k \<noteq> NaN)"


subsection \<open>Destination paths\<close>

text \<open>The name tried at a given value of \<open>counter\<close>: \<open>f"{stem}_{counter}{suffix}"\<close>.\<close>

definition candidate :: "string list \<Rightarrow> string \<Rightarrow> string \<Rightarrow> nat \<Rightarrow> string list" where
  "candidate dest_folder stem suffix counter =
     dest_folder @ [stem @ ''_'' @ py_str counter @ suffix]"

lemma candidate_inject:
  "candidate dest_folder stem suffix a = candidate dest_folder stem suffix b \<Longrightarrow> a = b"
  by (simp add: candidate_def py_str_inject)

lemma finite_candidates: "finite {k. candidate dest_folder stem suffix k |\<in>| fs}"
proof -
  have "inj (candidate dest_folder stem suffix)"
    by (rule injI) (rule candidate_inject)
  then have "finite (candidate dest_folder stem suffix -` fset fs)"
    by (intro finite_vimageI) auto
  then show ?thesis by (simp add: vimage_def)
qed

lemma candidates_step:
  "{k. counter \<le> k \<and> candidate dest_folder stem suffix k |\<in>| fs} =
     (if candidate dest_folder stem suffix counter |\<in>| fs then {counter} else {})
     \<union> {k. Suc counter \<le> k \<and> candidate dest_folder stem suffix k |\<in>| fs}"
  by (auto simp: Suc_le_eq le_less)

text \<open>
  The \<open>while dest_file.exists()\<close> loop of \<open>process_file\<close>, on the loop
  variables \<open>dest_file\<close> and \<open>counter\<close>. It terminates because the file system
  holds finitely many paths and the candidate names are pairwise different.
\<close>

function conflict_loop ::
  "string list fset \<Rightarrow> string list \<Rightarrow> string \<Rightarrow> string \<Rightarrow> string list \<Rightarrow> nat \<Rightarrow> string list" where
  "conflict_loop fs dest_folder stem suffix dest_file counter =
     (if dest_file |\<in>| fs
      then conflict_loop fs dest_folder stem suffix
             (candidate dest_folder stem suffix counter) (counter + 1)
      else dest_file)"
  by pat_completeness auto
termination
proof (relation "measure (\<lambda>(fs, dest_folder, stem, suffix, dest_file, counter).
    card {k. counter \<le> k \<and> candidate dest_folder stem suffix k |\<in>| fs}
    + (if dest_file |\<in>| fs then 1 else 0))", goal_cases)
  case 1
  show ?case by simp
next
  case (2 fs dest_folder stem suffix dest_file counter)
  have fin: "finite {k. Suc counter \<le> k \<and> candidate dest_folder stem suffix k |\<in>| fs}"
    by (rule finite_subset [OF _ finite_candidates [of dest_folder stem suffix fs]]) auto
  have notin: "counter \<notin> {k. Suc counter \<le> k \<and> candidate dest_folder stem suffix k |\<in>| fs}"
    by simp
  show ?case
    using 2 fin notin
    by (simp add: candidates_step [of counter dest_folder stem suffix fs])
qed

declare conflict_loop.simps [simp del]

text \<open>
  \<open>str(date_taken.year)\<close> and \<open>f"{date_taken.month:02d}-{date_taken.strftime('%B')}"\<close>
  (month names of the C locale), with the placeholders for an absent date.
\<close>

definition month_names :: "string list" where
  "month_names =
     [''January'', ''February'', ''March'', ''April'', ''May'', ''June'', ''July'',
      ''August'', ''September'', ''October'', ''November'', ''December'']"

definition strftime_B :: "datetime \<Rightarrow> string" where
  "strftime_B d = (if 1 \<le> month d \<and> month d \<le> 12 then month_names ! (month d - 1) else [])"

definition format_02d :: "nat \<Rightarrow> string" where
  "format_02d n = (if n < 10 then CHR ''0'' # py_str n else py_str n)"

definition year_folder :: "datetime option \<Rightarrow> string" where
  "year_folder date_taken =
     (case date_taken of Some d \<Rightarrow> py_str (year d) | None \<Rightarrow> ''Unknown_Year'')"

definition month_folder :: "datetime option \<Rightarrow> string" where
  "month_folder date_taken =
     (case date_taken of
        Some d \<Rightarrow> format_02d (month d) @ ''-'' @ strftime_B d
      | None \<Rightarrow> ''Unknown_Month'')"

subsection \<open>\<open>process_file\<close> and \<open>organize_media\<close>\<close>

definition PHOTO_EXTENSIONS :: "string set" where
  "PHOTO_EXTENSIONS = {''.jpg'', ''.jpeg'', ''.png'', ''.tiff'', ''.tif'', ''.bmp'', ''.gif''}"

definition VIDEO_EXTENSIONS :: "string set" where
  "VIDEO_EXTENSIONS =
     {''.mp4'', ''.mov'', ''.avi'', ''.mkv'', ''.wmv'', ''.flv'', ''.webm'', ''.m4v'', ''.3gp''}"

definition IPHONE_EXTENSIONS :: "string set" where
  "IPHONE_EXTENSIONS = {''.heic'', ''.heif''}"

definition SUPPORTED_EXTENSIONS :: "string set" where
  "SUPPORTED_EXTENSIONS = PHOTO_EXTENSIONS \<union> VIDEO_EXTENSIONS \<union> IPHONE_EXTENSIONS"

definition is_supported_file :: "media_file \<Rightarrow> bool" where
  "is_supported_file f = (lower (path_suffix (file_name f)) \<in> SUPPORTED_EXTENSIONS)"

text \<open>
  The two tests on \<open>file_hash\<close>: \<open>if file_hash and file_hash in processed_files\<close>
  and \<open>if file_hash: processed_files.add(file_hash)\<close>. A string is true when it
  is not empty.
\<close>

definition is_duplicate :: "string option \<Rightarrow> state \<Rightarrow> bool" where
  "is_duplicate file_hash st =
     (case file_hash of Some h \<Rightarrow> h \<noteq> [] \<and> h \<in> processed_files st | None \<Rightarrow> False)"

definition remember_hash :: "string option \<Rightarrow> state \<Rightarrow> state" where
  "remember_hash file_hash st =
     (case file_hash of
        Some h \<Rightarrow> if h \<noteq> [] then st\<lparr>processed_files := insert h (processed_files st)\<rparr> else st
      | None \<Rightarrow> st)"

text \<open>
  \<open>process_file\<close> is written in the blocks of the source. The first block
  (\<open># Extract metadata based on file type\<close>) leaves \<open>exif_data\<close> and
  \<open>video_data\<close> empty unless the extension selects a reader.
\<close>

definition extract_metadata ::
  "env \<Rightarrow> media_file \<Rightarrow> (string \<times> pyval) list \<times> (string \<times> string) list" where
  "extract_metadata env f =
     (let file_ext = lower (path_suffix (file_name f)) in
      if file_ext \<in> PHOTO_EXTENSIONS \<or> file_ext \<in> IPHONE_EXTENSIONS
      then (get_exif_data f, [])
      else if file_ext \<in> VIDEO_EXTENSIONS then ([], get_video_metadata env f)
      else ([], []))"

text \<open>
  \<open>lat, lon = get_gps_info(exif_data) if exif_data else (None, None)\<close> and
  \<open>location = get_location_name(lat, lon) if lat and lon else "Unknown_Location"\<close>.
\<close>

definition resolve_location :: "env \<Rightarrow> (string \<times> pyval) list \<Rightarrow> state \<Rightarrow> string \<times> state" where
  "resolve_location env exif_data st =
     (let (lat, lon) = (if exif_data \<noteq> [] then get_gps_info env exif_data else (None, None)) in
      if float_truthy lat \<and> float_truthy lon then get_location_name env lat lon st
      else (''Unknown_Location'', st))"

text \<open>
  The last block: \<open>mkdir\<close>, the conflict loop, and the copy or move. An
  exception of \<open>mkdir\<close>, \<open>shutil.copy2\<close> or \<open>shutil.move\<close> reaches the outer
  \<open>except\<close>, which logs the failure and returns \<open>False\<close>; what was stored in
  \<open>processed_files\<close> and \<open>location_cache\<close> before stays. \<open>mkdir\<close> creates
  proper prefixes of \<open>dest_folder\<close> only, never a path that
  \<open>dest_file.exists()\<close> is asked about, so \<open>existing\<close> records the files.
\<close>

definition transfer :: "bool \<Rightarrow> media_file \<Rightarrow> string list \<Rightarrow> state \<Rightarrow> bool \<times> state" where
  "transfer move_files f dest_folder st =
     (if \<not> transfer_ok f then (False, st\<lparr>logged := logged st @ [Failed (file_path f)]\<rparr>)
      else
        (let dest_file = conflict_loop (existing st) dest_folder
                           (path_stem (file_name f)) (path_suffix (file_name f))
                           (dest_folder @ [file_name f]) 1
         in if move_files
            then (True, st\<lparr>existing := finsert dest_file (existing st |-| {|file_path f|}),
                           logged := logged st @ [Moved (file_path f) dest_file]\<rparr>)
            else (True, st\<lparr>existing := finsert dest_file (existing st),
                           logged := logged st @ [Copied (file_path f) dest_file]\<rparr>)))"

definition process_file :: "env \<Rightarrow> string list \<Rightarrow> bool \<Rightarrow> media_file \<Rightarrow> state \<Rightarrow> bool \<times> state" where
  "process_file env output_dir move_files f st =
     (let file_hash = calculate_file_hash f in
      if is_duplicate file_hash st
      then (False, st\<lparr>logged := logged st @ [Skipping (file_path f)]\<rparr>)
      else
        (let st1 = remember_hash file_hash st;
             (exif_data, video_data) = extract_metadata env f;
             date_taken = get_date_taken env f exif_data video_data;
             (location, st2) = resolve_location env exif_data st1;
             dest_folder = output_dir @ [year_folder date_taken, month_folder date_taken, location]
         in transfer move_files f dest_folder st2))"

text \<open>The loop of \<open>organize_media\<close> over \<open>all_files\<close>, counting the successes.\<close>

fun process_all ::
  "env \<Rightarrow> string list \<Rightarrow> bool \<Rightarrow> media_file list \<Rightarrow> nat \<times> state \<Rightarrow> nat \<times> state" where
  "process_all env output_dir move_files [] acc = acc"
| "process_all env output_dir move_files (f # rest) (success_count, st) =
     (case process_file env output_dir move_files f st of
        (ok, st') \<Rightarrow>
          process_all env output_dir move_files rest
            (if ok then success_count + 1 else success_count, st'))"

text \<open>
  \<open>organize_media\<close>; \<open>source\<close> is the list of files \<open>os.walk\<close> yields, \<open>None\<close> when
  the source directory does not exist.
\<close>

definition organize_media ::
  "env \<Rightarrow> media_file list option \<Rightarrow> string list \<Rightarrow> bool \<Rightarrow> state \<Rightarrow> state" where
  "organize_media env source output_dir move_files st =
     (case source of
        None \<Rightarrow> st\<lparr>logged := logged st @ [SourceMissing]\<rparr>
      | Some walked \<Rightarrow>
          (let all_files = filter is_supported_file walked in
           if all_files = [] then st\<lparr>logged := logged st @ [NoMedia]\<rparr>
           else
             (case process_all env output_dir move_files all_files
                     (0, st\<lparr>logged := logged st @ [Found (length all_files)]\<rparr>) of
                (success_count, st') \<Rightarrow>
                  st'\<lparr>logged := logged st' @ [Summary success_count (length all_files)]\<rparr>)))"

text \<open>The destination files written, in order, as the log reports them.\<close>

fun written :: "event list \<Rightarrow> string list list" where
  "written [] = []"
| "written (Moved src dst # es) = dst # written es"
| "written (Copied src dst # es) = dst # written es"
| "written (e # es) = written es"

section \<open>Example inputs\<close>

text \<open>GPS sub-maps: the example of the specification, and two malformed ones.\<close>

definition gps_south_east :: "(string \<times> pyval) list" where
  "gps_south_east =
     [(''GPSLatitudeRef'', PyStr ''S''), (''GPSLatitude'', PySeq [PyNum 10, PyNum 0, PyNum 0]),
      (''GPSLongitudeRef'', PyStr ''E''), (''GPSLongitude'', PySeq [PyNum 20, PyNum 0, PyNum 0])]"

definition gps_two_element_latitude :: "(string \<times> pyval) list" where
  "gps_two_element_latitude =
     [(''GPSLatitudeRef'', PyStr ''S''), (''GPSLatitude'', PySeq [PyNum 10, PyNum 30]),
      (''GPSLongitudeRef'', PyStr ''W''), (''GPSLongitude'', PySeq [PyNum 20, PyNum 0, PyNum 0])]"

definition gps_text_longitude :: "(string \<times> pyval) list" where
  "gps_text_longitude =
     [(''GPSLatitudeRef'', PyStr ''S''), (''GPSLatitude'', PySeq [PyNum 10, PyNum 0, PyNum 0]),
      (''GPSLongitudeRef'', PyStr ''W''),
      (''GPSLongitude'', PySeq [PyStr ''east'', PyNum 0, PyNum 0])]"

text \<open>
  A photo without any embedded metadata, and an EXIF dictionary that holds the
  generic and the digitized timestamp with different values.
\<close>

definition untagged_photo :: media_file where
  "untagged_photo =
     \<lparr>parent = [''photos''], file_name = ''img.jpg'',
      md5_hexdigest = Some ''9e107d9d372bb6826bd81d3542a419d6'',
      exif_dict = [], plaintext = None,
      creation_time = Some \<lparr>year = 2024, month = 5, day = 6, hour = 7, minute = 8, second = 9\<rparr>,
      transfer_ok = True\<rparr>"

definition exif_generic_and_digitized :: "(string \<times> pyval) list" where
  "exif_generic_and_digitized =
     [(''DateTimeDigitized'', PyStr ''2021:02:02 11:00:00''),
      (''DateTime'', PyStr ''2020:01:01 10:00:00'')]"

text \<open>A video whose exported metadata has two lines that mention a date.\<close>

definition video_two_dates :: media_file where
  "video_two_dates =
     \<lparr>parent = [''videos''], file_name = ''clip.mp4'',
      md5_hexdigest = Some ''e4d909c290d0fb1ca068ffaddf22cbd0'',
      exif_dict = [],
      plaintext = Some [''- Duration: 12 sec'',
                        ''- Creation date: 2020-01-01 10:00:00'',
                        ''- Date-time digitized: 2021-02-02 11:00:00'',
                        ''- MIME type: video/mp4''],
      creation_time = Some \<lparr>year = 2024, month = 5, day = 6, hour = 7, minute = 8, second = 9\<rparr>,
      transfer_ok = True\<rparr>"

text \<open>The same photo when its creation time cannot be read.\<close>

definition undated_photo :: media_file where
  "undated_photo = untagged_photo\<lparr>creation_time := None\<rparr>"

text \<open>A photo whose latitude is malformed and decodes to \<open>0.0\<close>.\<close>

definition equator_photo :: media_file where
  "equator_photo =
     \<lparr>parent = [''photos''], file_name = ''equator.JPG'',
      md5_hexdigest = Some ''0cc175b9c0f1b6a831c399e269772661'',
      exif_dict = [(''GPSInfo'', PyDict gps_two_element_latitude)], plaintext = None,
      creation_time = Some \<lparr>year = 2024, month = 5, day = 6, hour = 7, minute = 8, second = 9\<rparr>,
      transfer_ok = True\<rparr>"

text \<open>
  The photo when its content cannot be read, and a second file with the same
  content under another name.
\<close>

definition unreadable_photo :: media_file where
  "unreadable_photo = untagged_photo\<lparr>md5_hexdigest := None\<rparr>"

definition renamed_copy :: media_file where
  "renamed_copy = untagged_photo\<lparr>file_name := ''copy of img.jpg''\<rparr>"

text \<open>The photo when copying it fails (the disk is full, or the file is locked).\<close>

definition failing_photo :: media_file where
  "failing_photo = untagged_photo\<lparr>transfer_ok := False\<rparr>"









section \<open>Verified properties\<close>

subsection \<open>GPS decoding\<close>

lemma convert_to_degrees_triplet:
  "convert_to_degrees env (PySeq [PyNum d, PyNum m, PyNum s]) = Inr (Fin (d + m / 60 + s / 3600))"
  by (simp add: convert_to_degrees_def)

lemma convert_to_degrees_decimal: "convert_to_degrees env (PyNum a) = Inr (Fin a)"
  by (simp add: convert_to_degrees_def)

lemma convert_fault_zero:
  "convert_try env v = Inl e \<Longrightarrow> e \<in> {ValueError, TypeError, ZeroDivisionError}
     \<Longrightarrow> convert_to_degrees env v = Inr (Fin 0)"
  by (auto simp: convert_to_degrees_def)

lemma get_gps_info_present:
  assumes gps: "map_of exif_data ''GPSInfo'' = Some (PyDict g)"
    and lat: "map_of g ''GPSLatitude'' = Some lat_data" "truthy lat_data"
    and lon: "map_of g ''GPSLongitude'' = Some lon_data" "truthy lon_data"
    and a: "convert_to_degrees env lat_data = Inr a"
    and b: "convert_to_degrees env lon_data = Inr b"
  shows "get_gps_info env exif_data =
    (Some (if dict_get g ''GPSLatitudeRef'' (PyStr ''N'') = PyStr ''S'' then float_neg a else a),
     Some (if dict_get g ''GPSLongitudeRef'' (PyStr ''E'') = PyStr ''W'' then float_neg b else b))"
proof -
  have ne: "g \<noteq> []" using lat by auto
  show ?thesis
    using assms ne by (simp add: get_gps_info_def dict_get_def Let_def)
qed

text \<open>
  Claim C4. When the GPS sub-map holds latitude and longitude data, each either
  a triplet of numbers (degrees, minutes, seconds) or a single non-zero decimal
  (a decimal \<open>0\<close> counts as absent for the presence test \<open>if lat_data\<close>), the
  decoded component is \<open>degrees + minutes/60 + seconds/3600\<close> (the decimal itself
  for a single number), negated exactly when the latitude reference is \<open>'S'\<close>,
  respectively the longitude reference is \<open>'W'\<close>. The witness is the example of
  the specification: latitude \<open>(10, 0, 0)\<close> south and longitude \<open>(20, 0, 0)\<close>
  east decode to \<open>(-10, 20)\<close>.
\<close>

theorem gps_decode_signed_degrees:
  assumes gps: "map_of exif_data ''GPSInfo'' = Some (PyDict g)"
    and lat: "map_of g ''GPSLatitude'' = Some lat_data"
    and lon: "map_of g ''GPSLongitude'' = Some lon_data"
    and a: "lat_data = PySeq [PyNum d1, PyNum m1, PyNum s1] \<and> a = d1 + m1 / 60 + s1 / 3600
            \<or> lat_data = PyNum a \<and> a \<noteq> 0"
    and b: "lon_data = PySeq [PyNum d2, PyNum m2, PyNum s2] \<and> b = d2 + m2 / 60 + s2 / 3600
            \<or> lon_data = PyNum b \<and> b \<noteq> 0"
  shows "get_gps_info env exif_data =
    (Some (Fin (if dict_get g ''GPSLatitudeRef'' (PyStr ''N'') = PyStr ''S'' then - a else a)),
     Some (Fin (if dict_get g ''GPSLongitudeRef'' (PyStr ''E'') = PyStr ''W'' then - b else b)))"
proof -
  have ta: "truthy lat_data" and ca: "convert_to_degrees env lat_data = Inr (Fin a)"
    using a by (auto simp: convert_to_degrees_triplet convert_to_degrees_decimal)
  have tb: "truthy lon_data" and cb: "convert_to_degrees env lon_data = Inr (Fin b)"
    using b by (auto simp: convert_to_degrees_triplet convert_to_degrees_decimal)
  show ?thesis
    unfolding get_gps_info_present [OF gps lat ta lon tb ca cb] by simp
qed

theorem gps_decode_signed_degrees_witness:
  "get_gps_info reference_env [(''GPSInfo'', PyDict gps_south_east)]
     = (Some (Fin (- 10)), Some (Fin 20))"
proof -
  have gps: "map_of [(''GPSInfo'', PyDict gps_south_east)] ''GPSInfo'' = Some (PyDict gps_south_east)"
    by simp
  have lat: "map_of gps_south_east ''GPSLatitude'' = Some (PySeq [PyNum 10, PyNum 0, PyNum 0])"
    by (simp add: gps_south_east_def)
  have lon: "map_of gps_south_east ''GPSLongitude'' = Some (PySeq [PyNum 20, PyNum 0, PyNum 0])"
    by (simp add: gps_south_east_def)
  have a: "PySeq [PyNum 10, PyNum 0, PyNum 0] = PySeq [PyNum 10, PyNum 0, PyNum 0]
             \<and> (10::real) = 10 + 0 / 60 + 0 / 3600
           \<or> PySeq [PyNum 10, PyNum 0, PyNum 0] = PyNum 10 \<and> (10::real) \<noteq> 0"
    by simp
  have b: "PySeq [PyNum 20, PyNum 0, PyNum 0] = PySeq [PyNum 20, PyNum 0, PyNum 0]
             \<and> (20::real) = 20 + 0 / 60 + 0 / 3600
           \<or> PySeq [PyNum 20, PyNum 0, PyNum 0] = PyNum 20 \<and> (20::real) \<noteq> 0"
    by simp
  show ?thesis
    using gps_decode_signed_degrees [OF gps lat lon a b, of reference_env]
    by (simp add: dict_get_def gps_south_east_def)
qed

text \<open>
  Claim C8. When latitude and longitude data are both present (true for the
  test \<open>if lat_data\<close>) and the conversion of one component raises
  \<open>ValueError\<close>, \<open>TypeError\<close> or \<open>ZeroDivisionError\<close> (a sequence of fewer than
  three elements, a value that is not a number, a division by zero),
  \<open>convert_to_degrees\<close> returns \<open>0.0\<close> for that component and \<open>get_gps_info\<close>
  still returns a coordinate, with \<open>0.0\<close> for the faulty component and the
  signed value of the other one.
\<close>

theorem gps_fault_degrades_to_zero:
  assumes gps: "map_of exif_data ''GPSInfo'' = Some (PyDict g)"
    and lat: "map_of g ''GPSLatitude'' = Some lat_data" "truthy lat_data"
    and lon: "map_of g ''GPSLongitude'' = Some lon_data" "truthy lon_data"
    and e: "e \<in> {ValueError, TypeError, ZeroDivisionError}"
  shows "(convert_try env lat_data = Inl e \<longrightarrow> convert_to_degrees env lat_data = Inr (Fin 0))
    \<and> (convert_try env lat_data = Inl e \<and> convert_to_degrees env lon_data = Inr b \<longrightarrow>
         get_gps_info env exif_data =
           (Some (Fin 0),
            Some (if dict_get g ''GPSLongitudeRef'' (PyStr ''E'') = PyStr ''W'' then float_neg b
                  else b)))
    \<and> (convert_to_degrees env lat_data = Inr a \<and> convert_try env lon_data = Inl e \<longrightarrow>
         get_gps_info env exif_data =
           (Some (if dict_get g ''GPSLatitudeRef'' (PyStr ''N'') = PyStr ''S'' then float_neg a
                  else a),
            Some (Fin 0)))"
proof (intro conjI impI)
  assume "convert_try env lat_data = Inl e"
  then show "convert_to_degrees env lat_data = Inr (Fin 0)" using e by (rule convert_fault_zero)
next
  assume h: "convert_try env lat_data = Inl e \<and> convert_to_degrees env lon_data = Inr b"
  then have z: "convert_to_degrees env lat_data = Inr (Fin 0)"
    using e convert_fault_zero by blast
  show "get_gps_info env exif_data =
           (Some (Fin 0),
            Some (if dict_get g ''GPSLongitudeRef'' (PyStr ''E'') = PyStr ''W'' then float_neg b
                  else b))"
    using get_gps_info_present [OF gps lat lon z] h by simp
next
  assume h: "convert_to_degrees env lat_data = Inr a \<and> convert_try env lon_data = Inl e"
  then have z: "convert_to_degrees env lon_data = Inr (Fin 0)"
    using e convert_fault_zero by blast
  show "get_gps_info env exif_data =
           (Some (if dict_get g ''GPSLatitudeRef'' (PyStr ''N'') = PyStr ''S'' then float_neg a
                  else a),
            Some (Fin 0))"
    using get_gps_info_present [OF gps lat lon _ z] h by simp
qed

theorem gps_fault_degrades_to_zero_witness:
  "convert_try reference_env (PySeq [PyNum 10, PyNum 30]) = Inl TypeError
   \<and> convert_to_degrees reference_env (PySeq [PyNum 10, PyNum 30]) = Inr (Fin 0)
   \<and> get_gps_info reference_env [(''GPSInfo'', PyDict gps_two_element_latitude)]
       = (Some (Fin 0), Some (Fin (- 20)))
   \<and> convert_try reference_env (PySeq [PyStr ''east'', PyNum 0, PyNum 0]) = Inl ValueError
   \<and> get_gps_info reference_env [(''GPSInfo'', PyDict gps_text_longitude)]
       = (Some (Fin (- 10)), Some (Fin 0))"
proof -
  have gps: "map_of [(''GPSInfo'', PyDict gps_two_element_latitude)] ''GPSInfo''
               = Some (PyDict gps_two_element_latitude)"
    by simp
  have lat: "map_of gps_two_element_latitude ''GPSLatitude'' = Some (PySeq [PyNum 10, PyNum 30])"
    "truthy (PySeq [PyNum 10, PyNum 30])"
    by (simp_all add: gps_two_element_latitude_def)
  have lon: "map_of gps_two_element_latitude ''GPSLongitude''
               = Some (PySeq [PyNum 20, PyNum 0, PyNum 0])"
    "truthy (PySeq [PyNum 20, PyNum 0, PyNum 0])"
    by (simp_all add: gps_two_element_latitude_def)
  have e: "TypeError \<in> {ValueError, TypeError, ZeroDivisionError}" by simp
  have fault: "convert_try reference_env (PySeq [PyNum 10, PyNum 30]) = Inl TypeError"
    by simp
  have other: "convert_to_degrees reference_env (PySeq [PyNum 20, PyNum 0, PyNum 0]) = Inr (Fin 20)"
    by (simp add: convert_to_degrees_def)
  have first: "convert_to_degrees reference_env (PySeq [PyNum 10, PyNum 30]) = Inr (Fin 0)
    \<and> get_gps_info reference_env [(''GPSInfo'', PyDict gps_two_element_latitude)]
        = (Some (Fin 0), Some (Fin (- 20)))"
    using gps_fault_degrades_to_zero [OF gps lat lon e, of reference_env "Fin 20" "Fin 0"] fault other
    by (simp add: dict_get_def gps_two_element_latitude_def)
  have gps': "map_of [(''GPSInfo'', PyDict gps_text_longitude)] ''GPSInfo''
               = Some (PyDict gps_text_longitude)"
    by simp
  have lat': "map_of gps_text_longitude ''GPSLatitude'' = Some (PySeq [PyNum 10, PyNum 0, PyNum 0])"
    "truthy (PySeq [PyNum 10, PyNum 0, PyNum 0])"
    by (simp_all add: gps_text_longitude_def)
  have lon': "map_of gps_text_longitude ''GPSLongitude''
               = Some (PySeq [PyStr ''east'', PyNum 0, PyNum 0])"
    "truthy (PySeq [PyStr ''east'', PyNum 0, PyNum 0])"
    by (simp_all add: gps_text_longitude_def)
  have e': "ValueError \<in> {ValueError, TypeError, ZeroDivisionError}" by simp
  have fault': "convert_try reference_env (PySeq [PyStr ''east'', PyNum 0, PyNum 0]) = Inl ValueError"
    by (simp add: reference_env_def float_of_digits_def is_digit_def)
  have other': "convert_to_degrees reference_env (PySeq [PyNum 10, PyNum 0, PyNum 0]) = Inr (Fin 10)"
    by (simp add: convert_to_degrees_def)
  have second: "get_gps_info reference_env [(''GPSInfo'', PyDict gps_text_longitude)]
        = (Some (Fin (- 10)), Some (Fin 0))"
    using gps_fault_degrades_to_zero [OF gps' lat' lon' e', of reference_env "Fin 0" "Fin 10"] fault' other'
    by (simp add: dict_get_def gps_text_longitude_def)
  show ?thesis using first second fault fault' by simp
qed

subsection \<open>Date resolution\<close>

lemmas strptime_eval = reference_env_def strptime_canonical_def is_digit_def digits_val_def
  digit_val_def days_in_month_def is_leap_def

text \<open>
  Claim C2, as stated, fails: the loop of \<open>get_date_taken\<close> runs over
  \<open>['DateTimeOriginal', 'DateTime', 'DateTimeDigitized']\<close>, so the generic tag
  is tried before the digitized one. With a generic timestamp of 2020 and a
  digitized timestamp of 2021, both parseable, the resolved date is the generic
  one.
\<close>

theorem date_tag_order_counterexample:
  "get_date_taken reference_env untagged_photo exif_generic_and_digitized []
     = Some \<lparr>year = 2020, month = 1, day = 1, hour = 10, minute = 0, second = 0\<rparr>
   \<and> parse_date_tag reference_env exif_generic_and_digitized ''DateTime''
     = Some \<lparr>year = 2020, month = 1, day = 1, hour = 10, minute = 0, second = 0\<rparr>
   \<and> parse_date_tag reference_env exif_generic_and_digitized ''DateTimeDigitized''
     = Some \<lparr>year = 2021, month = 2, day = 2, hour = 11, minute = 0, second = 0\<rparr>
   \<and> get_date_taken reference_env untagged_photo exif_generic_and_digitized []
     \<noteq> parse_date_tag reference_env exif_generic_and_digitized ''DateTimeDigitized''"
  by (simp add: get_date_taken_def parse_date_tag_def exif_generic_and_digitized_def strptime_eval)

text \<open>
  Claim C2, amended. The timestamp tags are tried in the order original-capture
  (\<open>DateTimeOriginal\<close>), generic (\<open>DateTime\<close>), digitized
  (\<open>DateTimeDigitized\<close>), each parsed with the format \<open>%Y:%m:%d %H:%M:%S\<close>, a
  missing or unparseable tag being skipped: a parseable original-capture tag is
  the resolved date whatever the other tags hold; without one, a parseable
  generic tag is the resolved date, also when a digitized tag is present;
  without either, a parseable digitized tag is the resolved date.
\<close>

theorem date_tag_order:
  "(parse_date_tag env exif_data ''DateTimeOriginal'' = Some d \<longrightarrow>
      get_date_taken env f exif_data video_data = Some d)
   \<and> (parse_date_tag env exif_data ''DateTimeOriginal'' = None
      \<and> parse_date_tag env exif_data ''DateTime'' = Some d \<longrightarrow>
      get_date_taken env f exif_data video_data = Some d)
   \<and> (parse_date_tag env exif_data ''DateTimeOriginal'' = None
      \<and> parse_date_tag env exif_data ''DateTime'' = None
      \<and> parse_date_tag env exif_data ''DateTimeDigitized'' = Some d \<longrightarrow>
      get_date_taken env f exif_data video_data = Some d)"
proof -
  have empty: "parse_date_tag env [] t = None" for t
    by (simp add: parse_date_tag_def)
  show ?thesis
    by (cases "exif_data = []") (simp_all add: get_date_taken_def empty)
qed

theorem date_tag_order_witness:
  "get_date_taken reference_env untagged_photo
      [(''DateTime'', PyStr ''2020:01:01 10:00:00''),
       (''DateTimeOriginal'', PyStr ''2019:12:31 23:59:59'')] []
     = Some \<lparr>year = 2019, month = 12, day = 31, hour = 23, minute = 59, second = 59\<rparr>
   \<and> get_date_taken reference_env untagged_photo exif_generic_and_digitized []
     = Some \<lparr>year = 2020, month = 1, day = 1, hour = 10, minute = 0, second = 0\<rparr>
   \<and> get_date_taken reference_env untagged_photo
      [(''DateTime'', PyStr ''unknown''),
       (''DateTimeDigitized'', PyStr ''2021:02:02 11:00:00'')] []
     = Some \<lparr>year = 2021, month = 2, day = 2, hour = 11, minute = 0, second = 0\<rparr>"
proof -
  have o: "parse_date_tag reference_env
      [(''DateTime'', PyStr ''2020:01:01 10:00:00''),
       (''DateTimeOriginal'', PyStr ''2019:12:31 23:59:59'')] ''DateTimeOriginal''
     = Some \<lparr>year = 2019, month = 12, day = 31, hour = 23, minute = 59, second = 59\<rparr>"
    by (simp add: parse_date_tag_def strptime_eval)
  have g: "parse_date_tag reference_env exif_generic_and_digitized ''DateTimeOriginal'' = None
    \<and> parse_date_tag reference_env exif_generic_and_digitized ''DateTime''
     = Some \<lparr>year = 2020, month = 1, day = 1, hour = 10, minute = 0, second = 0\<rparr>"
    by (simp add: parse_date_tag_def exif_generic_and_digitized_def strptime_eval)
  have d: "parse_date_tag reference_env
      [(''DateTime'', PyStr ''unknown''),
       (''DateTimeDigitized'', PyStr ''2021:02:02 11:00:00'')] ''DateTimeOriginal'' = None
    \<and> parse_date_tag reference_env
      [(''DateTime'', PyStr ''unknown''),
       (''DateTimeDigitized'', PyStr ''2021:02:02 11:00:00'')] ''DateTime'' = None
    \<and> parse_date_tag reference_env
      [(''DateTime'', PyStr ''unknown''),
       (''DateTimeDigitized'', PyStr ''2021:02:02 11:00:00'')] ''DateTimeDigitized''
     = Some \<lparr>year = 2021, month = 2, day = 2, hour = 11, minute = 0, second = 0\<rparr>"
    by (simp add: parse_date_tag_def strptime_eval)
  show ?thesis
    using o g d
      date_tag_order [of reference_env
        "[(''DateTime'', PyStr ''2020:01:01 10:00:00''),
          (''DateTimeOriginal'', PyStr ''2019:12:31 23:59:59'')]"
        "\<lparr>year = 2019, month = 12, day = 31, hour = 23, minute = 59, second = 59\<rparr>"
        untagged_photo "[]"]
      date_tag_order [of reference_env exif_generic_and_digitized
        "\<lparr>year = 2020, month = 1, day = 1, hour = 10, minute = 0, second = 0\<rparr>"
        untagged_photo "[]"]
      date_tag_order [of reference_env
        "[(''DateTime'', PyStr ''unknown''),
          (''DateTimeDigitized'', PyStr ''2021:02:02 11:00:00'')]"
        "\<lparr>year = 2021, month = 2, day = 2, hour = 11, minute = 0, second = 0\<rparr>"
        untagged_photo "[]"]
    by blast
qed

subsection \<open>Video metadata\<close>

lemma scan_metadata_lines_append:
  "scan_metadata_lines (pre @ rest) video_data
     = scan_metadata_lines rest (scan_metadata_lines pre video_data)"
  by (induction pre arbitrary: video_data) (auto split: option.splits)

lemma scan_metadata_lines_no_match:
  "\<forall>l \<in> set post. \<not> (is_date_line l \<and> split_once_after '': '' l \<noteq> None)
     \<Longrightarrow> scan_metadata_lines post video_data = video_data"
  by (induction post arbitrary: video_data) (auto split: option.splits)

lemma scan_metadata_lines_shape:
  "video_data = [] \<or> (\<exists>w. video_data = [(''creation_date'', w)])
     \<Longrightarrow> scan_metadata_lines lines video_data = []
         \<or> (\<exists>w. scan_metadata_lines lines video_data = [(''creation_date'', w)])"
proof (induction lines arbitrary: video_data)
  case Nil
  then show ?case by simp
next
  case (Cons line lines)
  show ?case
  proof (cases "is_date_line line \<and> split_once_after '': '' line \<noteq> None")
    case True
    then obtain v where v: "split_once_after '': '' line = Some v" by auto
    have "AList.update ''creation_date'' v video_data = [(''creation_date'', v)]"
      using Cons.prems by auto
    then show ?thesis using True v Cons.IH [of "[(''creation_date'', v)]"] by simp
  next
    case False
    then show ?thesis using Cons.IH [OF Cons.prems] by (auto split: option.splits)
  qed
qed

lemmas line_eval = is_date_line_def starts_with_def

text \<open>
  Claim C7, as stated, fails: the loop of \<open>get_video_metadata\<close> has no
  \<open>break\<close>, so every matching line overwrites \<open>video_data['creation_date']\<close>.
  With a \<open>Creation date\<close> line of 2020 followed by a \<open>Date-time digitized\<close>
  line of 2021, the string handed to date resolution is the one of 2021, not the
  first match.
\<close>

theorem video_creation_date_first_match_counterexample:
  "plaintext video_two_dates =
      Some [''- Duration: 12 sec'', ''- Creation date: 2020-01-01 10:00:00'',
            ''- Date-time digitized: 2021-02-02 11:00:00'', ''- MIME type: video/mp4'']
   \<and> \<not> is_date_line ''- Duration: 12 sec''
   \<and> is_date_line ''- Creation date: 2020-01-01 10:00:00''
   \<and> split_once_after '': '' ''- Creation date: 2020-01-01 10:00:00'' = Some ''2020-01-01 10:00:00''
   \<and> is_date_line ''- Date-time digitized: 2021-02-02 11:00:00''
   \<and> map_of (get_video_metadata reference_env video_two_dates) ''creation_date''
        = Some ''2021-02-02 11:00:00''"
  by (simp add: get_video_metadata_def reference_env_def video_two_dates_def line_eval)

text \<open>
  Claim C7, amended. When hachoir is available and the exported metadata has
  lines containing \<open>Date\<close> or \<open>Creation date\<close>, the raw creation-date string
  handed to date resolution is the text after the first \<open>: \<close> of the last such
  line that contains \<open>: \<close>.
\<close>

theorem video_creation_date_is_last_match:
  assumes "HACHOIR_SUPPORT env"
    and "plaintext f = Some (pre @ line # post)"
    and "is_date_line line"
    and "split_once_after '': '' line = Some v"
    and "\<forall>l \<in> set post. \<not> (is_date_line l \<and> split_once_after '': '' l \<noteq> None)"
  shows "get_video_metadata env f = [(''creation_date'', v)]"
proof -
  have "scan_metadata_lines pre [] = []
      \<or> (\<exists>w. scan_metadata_lines pre [] = [(''creation_date'', w)])"
    by (rule scan_metadata_lines_shape) simp
  then have "AList.update ''creation_date'' v (scan_metadata_lines pre []) = [(''creation_date'', v)]"
    by auto
  then have "scan_metadata_lines (pre @ line # post) [] = [(''creation_date'', v)]"
    using assms(3,4) scan_metadata_lines_no_match [OF assms(5)]
    by (simp add: scan_metadata_lines_append)
  then show ?thesis using assms(1,2) by (simp add: get_video_metadata_def)
qed

theorem video_creation_date_is_last_match_witness:
  "get_video_metadata reference_env video_two_dates = [(''creation_date'', ''2021-02-02 11:00:00'')]"
proof -
  have h: "HACHOIR_SUPPORT reference_env" by (simp add: reference_env_def)
  have p: "plaintext video_two_dates =
      Some ([''- Duration: 12 sec'', ''- Creation date: 2020-01-01 10:00:00'']
            @ ''- Date-time digitized: 2021-02-02 11:00:00'' # [''- MIME type: video/mp4''])"
    by (simp add: video_two_dates_def)
  have m: "is_date_line ''- Date-time digitized: 2021-02-02 11:00:00''"
    by (simp add: line_eval)
  have s: "split_once_after '': '' ''- Date-time digitized: 2021-02-02 11:00:00''
             = Some ''2021-02-02 11:00:00''"
    by (simp add: line_eval)
  have r: "\<forall>l \<in> set [''- MIME type: video/mp4''].
             \<not> (is_date_line l \<and> split_once_after '': '' l \<noteq> None)"
    by (simp add: line_eval)
  show ?thesis by (rule video_creation_date_is_last_match [OF h p m s r])
qed

subsection \<open>Facts about the blocks of \<open>process_file\<close>\<close>

lemma conflict_loop_free:
  "dest_file |\<notin>| fs \<Longrightarrow> conflict_loop fs dest_folder stem suffix dest_file counter = dest_file"
  by (simp add: conflict_loop.simps)

lemma conflict_loop_not_existing:
  "conflict_loop fs dest_folder stem suffix dest_file counter |\<notin>| fs"
  by (induction fs dest_folder stem suffix dest_file counter rule: conflict_loop.induct)
     (simp add: conflict_loop.simps)

lemma conflict_loop_parent:
  "butlast dest_file = dest_folder
     \<Longrightarrow> butlast (conflict_loop fs dest_folder stem suffix dest_file counter) = dest_folder"
proof (induction fs dest_folder stem suffix dest_file counter rule: conflict_loop.induct)
  case (1 fs dest_folder stem suffix dest_file counter)
  show ?case
  proof (cases "dest_file |\<in>| fs")
    case True
    have "butlast (candidate dest_folder stem suffix counter) = dest_folder"
      by (simp add: candidate_def)
    then show ?thesis using True 1 by (simp add: conflict_loop.simps [of fs _ _ _ dest_file])
  next
    case False
    then show ?thesis using 1 by (simp add: conflict_loop.simps [of fs _ _ _ dest_file])
  qed
qed

lemma remember_hash_fields [simp]:
  "existing (remember_hash h st) = existing st"
  "logged (remember_hash h st) = logged st"
  "requests (remember_hash h st) = requests st"
  "location_cache (remember_hash h st) = location_cache st"
  by (simp_all add: remember_hash_def split: option.splits)

lemma get_location_name_fields [simp]:
  "existing (snd (get_location_name env lat lon st)) = existing st"
  "logged (snd (get_location_name env lat lon st)) = logged st"
  "processed_files (snd (get_location_name env lat lon st)) = processed_files st"
  by (simp_all add: get_location_name_def Let_def split: option.splits geo_result.splits)

lemma resolve_location_fields [simp]:
  "existing (snd (resolve_location env exif_data st)) = existing st"
  "logged (snd (resolve_location env exif_data st)) = logged st"
  "processed_files (snd (resolve_location env exif_data st)) = processed_files st"
  by (simp_all add: resolve_location_def Let_def case_prod_beta)

lemma extract_metadata_cases:
  "extract_metadata env f = (get_exif_data f, [])
   \<or> extract_metadata env f = ([], get_video_metadata env f)
   \<or> extract_metadata env f = ([], [])"
  by (simp add: extract_metadata_def Let_def)

lemma process_file_duplicate:
  "is_duplicate (calculate_file_hash f) st \<Longrightarrow>
     process_file env output_dir move_files f st
       = (False, st\<lparr>logged := logged st @ [Skipping (file_path f)]\<rparr>)"
  by (simp add: process_file_def)

lemma process_file_fresh:
  "\<not> is_duplicate (calculate_file_hash f) st \<Longrightarrow>
     process_file env output_dir move_files f st =
       transfer move_files f
         (output_dir @
           [year_folder (get_date_taken env f (fst (extract_metadata env f))
                           (snd (extract_metadata env f))),
            month_folder (get_date_taken env f (fst (extract_metadata env f))
                            (snd (extract_metadata env f))),
            fst (resolve_location env (fst (extract_metadata env f))
                   (remember_hash (calculate_file_hash f) st))])
         (snd (resolve_location env (fst (extract_metadata env f))
                 (remember_hash (calculate_file_hash f) st)))"
  by (simp add: process_file_def Let_def case_prod_beta)

lemma transfer_done:
  "transfer_ok f \<Longrightarrow>
     transfer move_files f dest_folder st =
       (True,
        st\<lparr>existing :=
             (if move_files
              then finsert (conflict_loop (existing st) dest_folder (path_stem (file_name f))
                              (path_suffix (file_name f)) (dest_folder @ [file_name f]) 1)
                     (existing st |-| {|file_path f|})
              else finsert (conflict_loop (existing st) dest_folder (path_stem (file_name f))
                              (path_suffix (file_name f)) (dest_folder @ [file_name f]) 1)
                     (existing st)),
           logged := logged st @
             [if move_files
              then Moved (file_path f)
                     (conflict_loop (existing st) dest_folder (path_stem (file_name f))
                        (path_suffix (file_name f)) (dest_folder @ [file_name f]) 1)
              else Copied (file_path f)
                     (conflict_loop (existing st) dest_folder (path_stem (file_name f))
                        (path_suffix (file_name f)) (dest_folder @ [file_name f]) 1)]\<rparr>)"
  by (simp add: transfer_def Let_def)

lemma exif_date_loop_empty: "exif_date_loop env [] tags = None"
  by (induction tags) (simp_all add: parse_date_tag_def)

lemma get_date_taken_fallback:
  assumes "exif_data = [] \<or> exif_date_loop env exif_data
              [''DateTimeOriginal'', ''DateTime'', ''DateTimeDigitized''] = None"
    and "video_data = []"
  shows "get_date_taken env f exif_data video_data = creation_time f"
  using assms
  by (auto simp: get_date_taken_def get_file_creation_date_def simp del: exif_date_loop.simps)

lemma resolve_location_absent:
  assumes "exif_data = [] \<or> \<not> (float_truthy (fst (get_gps_info env exif_data))
                                  \<and> float_truthy (snd (get_gps_info env exif_data)))"
  shows "resolve_location env exif_data st = (''Unknown_Location'', st)"
  using assms by (auto simp: resolve_location_def case_prod_beta float_truthy_def)

lemmas model_eval = process_file_def is_duplicate_def remember_hash_def extract_metadata_def
  resolve_location_def transfer_def calculate_file_hash_def get_exif_data_def
  get_file_creation_date_def get_date_taken_def get_video_metadata_def file_path_def
  year_folder_def month_folder_def format_02d_def strftime_B_def month_names_def
  py_str.simps digit_char_def conflict_loop.simps candidate_def path_stem_def path_suffix_def
  lower_def lower_char_def PHOTO_EXTENSIONS_def IPHONE_EXTENSIONS_def VIDEO_EXTENSIONS_def
  SUPPORTED_EXTENSIONS_def is_supported_file_def initial_state_def float_truthy_def
  get_gps_info_def dict_get_def Let_def

subsection \<open>Files without metadata\<close>

text \<open>
  Claim C3, as stated, fails: when no tag and no video field gives a date,
  \<open>get_date_taken\<close> falls back to the creation time of the file
  (\<open>get_file_creation_date\<close>), which is present for a file that exists. A photo
  without any metadata, created in May 2024, is copied to
  \<open>2024/05-May/Unknown_Location\<close>, not to \<open>Unknown_Year/Unknown_Month\<close>.
\<close>

theorem missing_metadata_unknown_year_counterexample:
  "exif_dict untagged_photo = [] \<and> plaintext untagged_photo = None
   \<and> process_file reference_env [''out''] False untagged_photo (initial_state {||})
     = (True,
        \<lparr>processed_files = {''9e107d9d372bb6826bd81d3542a419d6''},
         location_cache = Map.empty,
         existing = {|[''out'', ''2024'', ''05-May'', ''Unknown_Location'', ''img.jpg'']|},
         requests = [],
         logged = [Copied [''photos'', ''img.jpg'']
                     [''out'', ''2024'', ''05-May'', ''Unknown_Location'', ''img.jpg'']]\<rparr>)"
  by (simp add: untagged_photo_def model_eval)

text \<open>
  Claim C3, amended. A file that is not skipped as a duplicate, can be
  transferred, and has no parseable date tag, no GPS coordinate and no video
  creation date is routed to \<open><year>/<MM-MonthName>/Unknown_Location\<close> of its
  file-system creation time, and to
  \<open>Unknown_Year/Unknown_Month/Unknown_Location\<close> only when the creation time
  cannot be read either; it keeps its name when that name is free in the
  directory.
\<close>

theorem missing_metadata_uses_creation_time:
  assumes nodate: "exif_date_loop env (exif_dict f)
                     [''DateTimeOriginal'', ''DateTime'', ''DateTimeDigitized''] = None"
    and nogps: "get_gps_info env (exif_dict f) = (None, None)"
    and novideo: "get_video_metadata env f = []"
    and fresh: "\<not> is_duplicate (calculate_file_hash f) st"
    and ok: "transfer_ok f"
  shows "\<exists>dest st'.
      process_file env output_dir move_files f st = (True, st')
    \<and> logged st' = logged st @ [if move_files then Moved (file_path f) dest
                                else Copied (file_path f) dest]
    \<and> butlast dest = output_dir @ [year_folder (creation_time f),
                                    month_folder (creation_time f), ''Unknown_Location'']
    \<and> (output_dir @ [year_folder (creation_time f), month_folder (creation_time f),
                      ''Unknown_Location'', file_name f] |\<notin>| existing st
        \<longrightarrow> last dest = file_name f)
    \<and> year_folder (creation_time f)
        = (case creation_time f of None \<Rightarrow> ''Unknown_Year'' | Some d \<Rightarrow> py_str (year d))
    \<and> month_folder (creation_time f)
        = (case creation_time f of None \<Rightarrow> ''Unknown_Month''
           | Some d \<Rightarrow> format_02d (month d) @ ''-'' @ strftime_B d)"
proof -
  define E where "E = fst (extract_metadata env f)"
  define V where "V = snd (extract_metadata env f)"
  have EV: "(E = exif_dict f \<or> E = []) \<and> V = []"
    using extract_metadata_cases [of env f] novideo
    by (auto simp: E_def V_def get_exif_data_def)
  have date: "get_date_taken env f E V = creation_time f"
    using EV nodate by (intro get_date_taken_fallback) auto
  have loc: "resolve_location env E st1 = (''Unknown_Location'', st1)" for st1
    using EV nogps by (intro resolve_location_absent) (auto simp: float_truthy_def)
  define folder where "folder = output_dir @ [year_folder (creation_time f),
                                    month_folder (creation_time f), ''Unknown_Location'']"
  define dest where "dest = conflict_loop (existing st) folder (path_stem (file_name f))
                              (path_suffix (file_name f)) (folder @ [file_name f]) 1"
  have run: "process_file env output_dir move_files f st
               = transfer move_files f folder (remember_hash (calculate_file_hash f) st)"
    using process_file_fresh [OF fresh, of env output_dir move_files]
    by (simp add: E_def [symmetric] V_def [symmetric] date loc folder_def)
  have parent: "butlast dest = folder"
    unfolding dest_def by (rule conflict_loop_parent) simp
  have free: "folder @ [file_name f] |\<notin>| existing st \<Longrightarrow> dest = folder @ [file_name f]"
    unfolding dest_def by (rule conflict_loop_free)
  have "process_file env output_dir move_files f st
      = (True, (remember_hash (calculate_file_hash f) st)
           \<lparr>existing := (if move_files then finsert dest (existing st |-| {|file_path f|})
                         else finsert dest (existing st)),
            logged := logged st @ [if move_files then Moved (file_path f) dest
                                   else Copied (file_path f) dest]\<rparr>)"
    unfolding run by (simp add: transfer_done [OF ok] dest_def)
  then show ?thesis
    using parent free
    by (intro exI [of _ dest]) (auto simp: folder_def year_folder_def month_folder_def
        split: option.splits)
qed

theorem missing_metadata_uses_creation_time_witness:
  "(\<exists>dest st'.
      process_file reference_env [''out''] False untagged_photo (initial_state {||}) = (True, st')
    \<and> logged st' = [Copied [''photos'', ''img.jpg''] dest]
    \<and> butlast dest = [''out'', ''2024'', ''05-May'', ''Unknown_Location'']
    \<and> last dest = ''img.jpg'')
   \<and> (\<exists>dest st'.
      process_file reference_env [''out''] True undated_photo (initial_state {||}) = (True, st')
    \<and> logged st' = [Moved [''photos'', ''img.jpg''] dest]
    \<and> butlast dest = [''out'', ''Unknown_Year'', ''Unknown_Month'', ''Unknown_Location'']
    \<and> last dest = ''img.jpg'')"
proof -
  have nodate: "exif_date_loop reference_env (exif_dict untagged_photo)
                     [''DateTimeOriginal'', ''DateTime'', ''DateTimeDigitized''] = None"
    "exif_date_loop reference_env (exif_dict undated_photo)
                     [''DateTimeOriginal'', ''DateTime'', ''DateTimeDigitized''] = None"
    by (simp_all add: undated_photo_def untagged_photo_def parse_date_tag_def)
  have nogps: "get_gps_info reference_env (exif_dict untagged_photo) = (None, None)"
    "get_gps_info reference_env (exif_dict undated_photo) = (None, None)"
    by (simp_all add: undated_photo_def untagged_photo_def get_gps_info_def dict_get_def)
  have novideo: "get_video_metadata reference_env untagged_photo = []"
    "get_video_metadata reference_env undated_photo = []"
    by (simp_all add: undated_photo_def untagged_photo_def get_video_metadata_def)
  have fresh: "\<not> is_duplicate (calculate_file_hash untagged_photo) (initial_state {||})"
    "\<not> is_duplicate (calculate_file_hash undated_photo) (initial_state {||})"
    by (simp_all add: is_duplicate_def initial_state_def split: option.splits)
  have ok: "transfer_ok untagged_photo" "transfer_ok undated_photo"
    by (simp_all add: undated_photo_def untagged_photo_def)
  show ?thesis
    using missing_metadata_uses_creation_time
            [OF nodate(1) nogps(1) novideo(1) fresh(1) ok(1),
             where output_dir = "[''out'']" and move_files = False]
          missing_metadata_uses_creation_time
            [OF nodate(2) nogps(2) novideo(2) fresh(2) ok(2),
             where output_dir = "[''out'']" and move_files = True]
    by (simp add: undated_photo_def untagged_photo_def initial_state_def file_path_def
        year_folder_def month_folder_def format_02d_def strftime_B_def month_names_def
        py_str.simps digit_char_def)
qed

subsection \<open>Coordinates on the equator or the prime meridian\<close>

text \<open>
  Claim C10. A coordinate whose latitude or longitude is \<open>0.0\<close> is treated as
  absent, because presence is tested by truth value: \<open>get_location_name\<close>
  returns \<open>"Unknown_Location"\<close> at once and leaves the state untouched (no cache
  lookup, no request), and \<open>process_file\<close> routes a file whose decoded
  coordinate has a zero component to \<open>Unknown_Location\<close> without touching the
  cache or the geocoder. The witness is a photo whose two-element latitude
  made the decoder fall back to \<open>0.0\<close>.
\<close>

theorem zero_coordinate_is_unknown_location:
  assumes zero: "la = Fin 0 \<or> lo = Fin 0"
  shows "get_location_name env (Some la) (Some lo) st = (''Unknown_Location'', st)
    \<and> (get_gps_info env (exif_dict f) = (Some la, Some lo)
         \<and> \<not> is_duplicate (calculate_file_hash f) st \<and> transfer_ok f \<longrightarrow>
        (\<exists>dest st' y m.
            process_file env output_dir move_files f st = (True, st')
          \<and> logged st' = logged st @ [if move_files then Moved (file_path f) dest
                                      else Copied (file_path f) dest]
          \<and> butlast dest = output_dir @ [y, m, ''Unknown_Location'']
          \<and> requests st' = requests st
          \<and> location_cache st' = location_cache st))"
proof (intro conjI impI)
  show "get_location_name env (Some la) (Some lo) st = (''Unknown_Location'', st)"
    using zero by (auto simp: get_location_name_def float_truthy_def)
next
  assume h: "get_gps_info env (exif_dict f) = (Some la, Some lo)
         \<and> \<not> is_duplicate (calculate_file_hash f) st \<and> transfer_ok f"
  define E where "E = fst (extract_metadata env f)"
  define V where "V = snd (extract_metadata env f)"
  define st1 where "st1 = remember_hash (calculate_file_hash f) st"
  have E: "E = exif_dict f \<or> E = []"
    using extract_metadata_cases [of env f] by (auto simp: E_def get_exif_data_def)
  have loc: "resolve_location env E st1 = (''Unknown_Location'', st1)"
    using E h zero by (intro resolve_location_absent) (auto simp: float_truthy_def)
  define folder where "folder = output_dir @ [year_folder (get_date_taken env f E V),
                                    month_folder (get_date_taken env f E V), ''Unknown_Location'']"
  define dest where "dest = conflict_loop (existing st) folder (path_stem (file_name f))
                              (path_suffix (file_name f)) (folder @ [file_name f]) 1"
  have run: "process_file env output_dir move_files f st = transfer move_files f folder st1"
    using process_file_fresh [of f st env output_dir move_files] h
    by (simp add: E_def [symmetric] V_def [symmetric] st1_def [symmetric] loc folder_def)
  have parent: "butlast dest = folder"
    unfolding dest_def by (rule conflict_loop_parent) simp
  have "process_file env output_dir move_files f st
      = (True, st1
           \<lparr>existing := (if move_files then finsert dest (existing st |-| {|file_path f|})
                         else finsert dest (existing st)),
            logged := logged st @ [if move_files then Moved (file_path f) dest
                                   else Copied (file_path f) dest]\<rparr>)"
    unfolding run using h by (simp add: transfer_done dest_def st1_def)
  then show "\<exists>dest st' y m.
            process_file env output_dir move_files f st = (True, st')
          \<and> logged st' = logged st @ [if move_files then Moved (file_path f) dest
                                      else Copied (file_path f) dest]
          \<and> butlast dest = output_dir @ [y, m, ''Unknown_Location'']
          \<and> requests st' = requests st
          \<and> location_cache st' = location_cache st"
    using parent
    by (intro exI [of _ dest]) (auto simp: folder_def st1_def)
qed

theorem zero_coordinate_is_unknown_location_witness:
  "get_gps_info reference_env (exif_dict equator_photo) = (Some (Fin 0), Some (Fin (- 20)))
   \<and> get_location_name reference_env (Some (Fin 0)) (Some (Fin (- 20))) (initial_state {||})
       = (''Unknown_Location'', initial_state {||})
   \<and> (\<exists>dest st' y m.
         process_file reference_env [''out''] False equator_photo (initial_state {||}) = (True, st')
       \<and> logged st' = [Copied [''photos'', ''equator.JPG''] dest]
       \<and> butlast dest = [''out'', y, m, ''Unknown_Location'']
       \<and> requests st' = []
       \<and> location_cache st' = Map.empty)"
proof -
  have zero: "Fin 0 = Fin 0 \<or> Fin (- 20) = Fin 0" by simp
  have gps: "get_gps_info reference_env (exif_dict equator_photo)
               = (Some (Fin 0), Some (Fin (- 20)))"
    by (simp add: equator_photo_def gps_two_element_latitude_def get_gps_info_def dict_get_def
        convert_to_degrees_def)
  have fresh: "\<not> is_duplicate (calculate_file_hash equator_photo) (initial_state {||})"
    by (simp add: is_duplicate_def initial_state_def split: option.splits)
  have ok: "transfer_ok equator_photo" by (simp add: equator_photo_def)
  show ?thesis
    using zero_coordinate_is_unknown_location
            [OF zero, where env = reference_env and st = "initial_state {||}"
               and f = equator_photo and output_dir = "[''out'']" and move_files = False]
          gps fresh ok
    by (simp add: initial_state_def file_path_def equator_photo_def)
qed

subsection \<open>Duplicate detection\<close>

lemma get_location_name_processed:
  "get_location_name env lat lon (st\<lparr>processed_files := P\<rparr>) =
     (fst (get_location_name env lat lon st),
      (snd (get_location_name env lat lon st))\<lparr>processed_files := P\<rparr>)"
  by (simp add: get_location_name_def Let_def split: option.splits geo_result.splits)

lemma resolve_location_processed:
  "resolve_location env exif_data (st\<lparr>processed_files := P\<rparr>) =
     (fst (resolve_location env exif_data st),
      (snd (resolve_location env exif_data st))\<lparr>processed_files := P\<rparr>)"
  by (simp add: resolve_location_def Let_def case_prod_beta get_location_name_processed)

lemma transfer_processed:
  "transfer move_files f dest_folder (st\<lparr>processed_files := P\<rparr>) =
     (fst (transfer move_files f dest_folder st),
      (snd (transfer move_files f dest_folder st))\<lparr>processed_files := P\<rparr>)"
  by (simp add: transfer_def Let_def)

lemma transfer_processed_files [simp]:
  "processed_files (snd (transfer move_files f dest_folder st)) = processed_files st"
  by (simp add: transfer_def Let_def)

lemma process_file_processed_files:
  "processed_files (snd (process_file env output_dir move_files f st))
     = processed_files (if is_duplicate (calculate_file_hash f) st then st
                        else remember_hash (calculate_file_hash f) st)"
  by (simp add: process_file_def Let_def case_prod_beta)

lemma process_file_keeps_digests:
  "d \<in> processed_files st \<Longrightarrow> d \<in> processed_files (snd (process_file env output_dir move_files f st))"
  by (auto simp: process_file_processed_files remember_hash_def split: option.splits)

lemma process_all_keeps_digests:
  "d \<in> processed_files (snd acc)
     \<Longrightarrow> d \<in> processed_files (snd (process_all env output_dir move_files files acc))"
proof (induction files arbitrary: acc)
  case Nil
  then show ?case by simp
next
  case (Cons f files)
  obtain n st where acc: "acc = (n, st)" by (cases acc)
  obtain ok st' where step: "process_file env output_dir move_files f st = (ok, st')"
    by (cases "process_file env output_dir move_files f st")
  have "d \<in> processed_files st'"
    using process_file_keeps_digests [of d st env output_dir move_files f] Cons.prems acc step
    by simp
  then show ?case using Cons.IH [of "(if ok then n + 1 else n, st')"] acc step by simp
qed

lemma same_file_but_hash:
  "extract_metadata env (f\<lparr>md5_hexdigest := h\<rparr>) = extract_metadata env f"
  "get_date_taken env (f\<lparr>md5_hexdigest := h\<rparr>) = get_date_taken env f"
  "transfer move_files (f\<lparr>md5_hexdigest := h\<rparr>) = transfer move_files f"
  "calculate_file_hash (f\<lparr>md5_hexdigest := h\<rparr>) = h"
  "file_path (f\<lparr>md5_hexdigest := h\<rparr>) = file_path f"
proof -
  have ctime: "get_file_creation_date (f\<lparr>md5_hexdigest := h\<rparr>) = get_file_creation_date f"
    by (simp add: get_file_creation_date_def)
  show "extract_metadata env (f\<lparr>md5_hexdigest := h\<rparr>) = extract_metadata env f"
    by (simp add: extract_metadata_def get_exif_data_def get_video_metadata_def Let_def)
  show "get_date_taken env (f\<lparr>md5_hexdigest := h\<rparr>) = get_date_taken env f"
    unfolding fun_eq_iff get_date_taken_def ctime by simp
  show "file_path (f\<lparr>md5_hexdigest := h\<rparr>) = file_path f"
    by (simp add: file_path_def)
  then show "transfer move_files (f\<lparr>md5_hexdigest := h\<rparr>) = transfer move_files f"
    by (simp add: fun_eq_iff transfer_def Let_def)
  show "calculate_file_hash (f\<lparr>md5_hexdigest := h\<rparr>) = h"
    by (simp add: calculate_file_hash_def)
qed

lemma transfer_failed:
  "\<not> transfer_ok f \<Longrightarrow>
     transfer move_files f dest_folder st
       = (False, st\<lparr>logged := logged st @ [Failed (file_path f)]\<rparr>)"
  by (simp add: transfer_def)

lemma two_equal_digests_run:
  assumes h: "calculate_file_hash f1 = Some d \<and> calculate_file_hash f2 = Some d \<and> d \<noteq> []
       \<and> is_supported_file f1 \<and> is_supported_file f2"
  shows "\<exists>folder r. existing r = fs \<and> logged r = [Found 2]
     \<and> organize_media env (Some [f1, f2]) output_dir move_files (initial_state fs)
         = (snd (transfer move_files f1 folder r))
             \<lparr>logged := logged (snd (transfer move_files f1 folder r))
                @ [Skipping (file_path f2),
                   Summary (if fst (transfer move_files f1 folder r) then 1 else 0) 2]\<rparr>"
proof -
  define st0 where "st0 = (initial_state fs)\<lparr>logged := [Found 2]\<rparr>"
  have fresh: "\<not> is_duplicate (calculate_file_hash f1) st0"
    by (simp add: st0_def initial_state_def is_duplicate_def split: option.splits)
  define E where "E = fst (extract_metadata env f1)"
  define V where "V = snd (extract_metadata env f1)"
  define r where "r = resolve_location env E (remember_hash (calculate_file_hash f1) st0)"
  define folder where "folder = output_dir @ [year_folder (get_date_taken env f1 E V),
                                    month_folder (get_date_taken env f1 E V), fst r]"
  define t where "t = transfer move_files f1 folder (snd r)"
  have ex: "existing (snd r) = fs" and lg: "logged (snd r) = [Found 2]"
    and pf: "processed_files (snd r) = {d}"
    using h by (simp_all add: r_def st0_def initial_state_def remember_hash_def)
  have "process_file env output_dir move_files f1 st0 = transfer move_files f1 folder (snd r)"
    unfolding folder_def r_def E_def V_def by (rule process_file_fresh [OF fresh])
  then have first: "process_file env output_dir move_files f1 st0 = (fst t, snd t)"
    by (simp add: t_def)
  have "processed_files (snd t) = {d}"
    by (simp add: t_def pf)
  then have dup: "is_duplicate (calculate_file_hash f2) (snd t)"
    using h by (simp add: is_duplicate_def)
  have second: "process_file env output_dir move_files f2 (snd t)
                  = (False, (snd t)\<lparr>logged := logged (snd t) @ [Skipping (file_path f2)]\<rparr>)"
    by (rule process_file_duplicate [OF dup])
  have loop: "process_all env output_dir move_files [f1, f2] (0, st0)
                = (if fst t then 1 else 0,
                   (snd t)\<lparr>logged := logged (snd t) @ [Skipping (file_path f2)]\<rparr>)"
    by (simp add: first second case_prod_beta)
  have start: "(initial_state fs)\<lparr>logged := logged (initial_state fs) @ [Found (length [f1, f2])]\<rparr>
                 = st0"
    by (simp add: st0_def initial_state_def)
  have supported: "filter is_supported_file [f1, f2] = [f1, f2]"
    using h by simp
  have run: "organize_media env (Some [f1, f2]) output_dir move_files (initial_state fs)
               = (snd t)\<lparr>logged := logged (snd t)
                    @ [Skipping (file_path f2), Summary (if fst t then 1 else 0) 2]\<rparr>"
    unfolding organize_media_def option.case Let_def supported start loop by simp
  show ?thesis
    using ex lg run unfolding t_def by blast
qed

text \<open>
  Claim C1, as stated, fails. \<open>process_file\<close> adds the digest to
  \<open>processed_files\<close> before it copies the file, and the \<open>except\<close> clause that
  catches a failing copy leaves the digest in the set. When the copy of the
  first of two byte-identical files fails, the second one is skipped as a
  duplicate and the run writes no output file at all.
\<close>

theorem duplicate_after_failed_copy_counterexample:
  "calculate_file_hash failing_photo = calculate_file_hash renamed_copy
   \<and> file_name failing_photo \<noteq> file_name renamed_copy
   \<and> logged (organize_media reference_env (Some [failing_photo, renamed_copy]) [''out'']
               False (initial_state {||}))
       = [Found 2, Failed [''photos'', ''img.jpg''],
          Skipping [''photos'', ''copy of img.jpg''], Summary 0 2]
   \<and> written (logged (organize_media reference_env (Some [failing_photo, renamed_copy])
                         [''out''] False (initial_state {||}))) = []
   \<and> existing (organize_media reference_env (Some [failing_photo, renamed_copy]) [''out'']
                 False (initial_state {||})) = {||}"
proof -
  have pair: "calculate_file_hash failing_photo = Some ''9e107d9d372bb6826bd81d3542a419d6''
      \<and> calculate_file_hash renamed_copy = Some ''9e107d9d372bb6826bd81d3542a419d6''
      \<and> ''9e107d9d372bb6826bd81d3542a419d6'' \<noteq> []
      \<and> is_supported_file failing_photo \<and> is_supported_file renamed_copy"
    by (simp add: failing_photo_def renamed_copy_def untagged_photo_def calculate_file_hash_def
        is_supported_file_def path_suffix_def lower_def lower_char_def
        SUPPORTED_EXTENSIONS_def PHOTO_EXTENSIONS_def)
  have fails: "\<not> transfer_ok failing_photo"
    by (simp add: failing_photo_def)
  have paths: "file_path failing_photo = [''photos'', ''img.jpg'']"
    "file_path renamed_copy = [''photos'', ''copy of img.jpg'']"
    by (simp_all add: file_path_def failing_photo_def renamed_copy_def untagged_photo_def)
  from two_equal_digests_run [OF pair, of "{||}" reference_env "[''out'']" False]
  obtain folder r where r: "existing r = {||}" "logged r = [Found 2]"
    and run: "organize_media reference_env (Some [failing_photo, renamed_copy]) [''out''] False
                (initial_state {||})
         = (snd (transfer False failing_photo folder r))
             \<lparr>logged := logged (snd (transfer False failing_photo folder r))
                @ [Skipping (file_path renamed_copy),
                   Summary (if fst (transfer False failing_photo folder r) then 1 else 0) 2]\<rparr>"
    by blast
  have names: "file_name failing_photo \<noteq> file_name renamed_copy"
    by (simp add: failing_photo_def renamed_copy_def untagged_photo_def)
  show ?thesis
    unfolding run transfer_failed [OF fails] using pair names
    by (simp add: r paths)
qed

text \<open>
  Claim C1, amended. Once a digest is in \<open>processed_files\<close>, it stays there
  through the processing of any further files, and a later file with that
  digest is skipped: \<open>process_file\<close> returns \<open>False\<close> and changes nothing but
  the log line \<open>Skipping duplicate file\<close> (no metadata is read, nothing is
  copied or moved, the geocoder is not asked). Hence a run over two files with
  the same content digest writes at most one output file, and exactly one when
  the copy or move of the first file succeeds. The digest is a non-empty
  string, as every MD5 hex digest is.
\<close>

theorem duplicate_digest_is_skipped:
  "(calculate_file_hash f = Some d \<and> d \<noteq> [] \<and> d \<in> processed_files st \<longrightarrow>
      process_file env output_dir move_files f
          (snd (process_all env output_dir move_files others (n, st)))
        = (False,
           (snd (process_all env output_dir move_files others (n, st)))
             \<lparr>logged := logged (snd (process_all env output_dir move_files others (n, st)))
                          @ [Skipping (file_path f)]\<rparr>))
   \<and> (calculate_file_hash f1 = Some d \<and> calculate_file_hash f2 = Some d \<and> d \<noteq> []
       \<and> is_supported_file f1 \<and> is_supported_file f2 \<longrightarrow>
      length (written (logged (organize_media env (Some [f1, f2]) output_dir move_files
                                 (initial_state fs)))) \<le> 1)
   \<and> (calculate_file_hash f1 = Some d \<and> calculate_file_hash f2 = Some d \<and> d \<noteq> []
       \<and> is_supported_file f1 \<and> is_supported_file f2 \<and> transfer_ok f1 \<longrightarrow>
      (\<exists>dest.
         logged (organize_media env (Some [f1, f2]) output_dir move_files (initial_state fs))
           = [Found 2,
              if move_files then Moved (file_path f1) dest else Copied (file_path f1) dest,
              Skipping (file_path f2),
              Summary 1 2]
       \<and> written (logged (organize_media env (Some [f1, f2]) output_dir move_files
                             (initial_state fs))) = [dest]
       \<and> dest |\<notin>| fs
       \<and> existing (organize_media env (Some [f1, f2]) output_dir move_files (initial_state fs))
           = (if move_files then finsert dest (fs |-| {|file_path f1|}) else finsert dest fs)))"
proof (intro conjI impI)
  assume h: "calculate_file_hash f = Some d \<and> d \<noteq> [] \<and> d \<in> processed_files st"
  then have "d \<in> processed_files (snd (process_all env output_dir move_files others (n, st)))"
    by (intro process_all_keeps_digests) simp
  then have "is_duplicate (calculate_file_hash f)
               (snd (process_all env output_dir move_files others (n, st)))"
    using h by (simp add: is_duplicate_def)
  then show "process_file env output_dir move_files f
          (snd (process_all env output_dir move_files others (n, st)))
        = (False,
           (snd (process_all env output_dir move_files others (n, st)))
             \<lparr>logged := logged (snd (process_all env output_dir move_files others (n, st)))
                          @ [Skipping (file_path f)]\<rparr>)"
    by (rule process_file_duplicate)
next
  assume h: "calculate_file_hash f1 = Some d \<and> calculate_file_hash f2 = Some d \<and> d \<noteq> []
       \<and> is_supported_file f1 \<and> is_supported_file f2"
  from two_equal_digests_run [OF h, of fs env output_dir move_files]
  obtain folder r where r: "existing r = fs" "logged r = [Found 2]"
    and run: "organize_media env (Some [f1, f2]) output_dir move_files (initial_state fs)
         = (snd (transfer move_files f1 folder r))
             \<lparr>logged := logged (snd (transfer move_files f1 folder r))
                @ [Skipping (file_path f2),
                   Summary (if fst (transfer move_files f1 folder r) then 1 else 0) 2]\<rparr>"
    by blast
  show "length (written (logged (organize_media env (Some [f1, f2]) output_dir move_files
                                 (initial_state fs)))) \<le> 1"
  proof (cases "transfer_ok f1")
    case True
    show ?thesis unfolding run transfer_done [OF True] by (simp add: r)
  next
    case False
    show ?thesis unfolding run transfer_failed [OF False] by (simp add: r)
  qed
next
  assume h: "calculate_file_hash f1 = Some d \<and> calculate_file_hash f2 = Some d \<and> d \<noteq> []
       \<and> is_supported_file f1 \<and> is_supported_file f2 \<and> transfer_ok f1"
  then have h': "calculate_file_hash f1 = Some d \<and> calculate_file_hash f2 = Some d \<and> d \<noteq> []
       \<and> is_supported_file f1 \<and> is_supported_file f2" and ok: "transfer_ok f1"
    by simp_all
  from two_equal_digests_run [OF h', of fs env output_dir move_files]
  obtain folder r where r: "existing r = fs" "logged r = [Found 2]"
    and run: "organize_media env (Some [f1, f2]) output_dir move_files (initial_state fs)
         = (snd (transfer move_files f1 folder r))
             \<lparr>logged := logged (snd (transfer move_files f1 folder r))
                @ [Skipping (file_path f2),
                   Summary (if fst (transfer move_files f1 folder r) then 1 else 0) 2]\<rparr>"
    by blast
  define dest where "dest = conflict_loop fs folder (path_stem (file_name f1))
                              (path_suffix (file_name f1)) (folder @ [file_name f1]) 1"
  have "dest |\<notin>| fs" unfolding dest_def by (rule conflict_loop_not_existing)
  then show "\<exists>dest.
         logged (organize_media env (Some [f1, f2]) output_dir move_files (initial_state fs))
           = [Found 2,
              if move_files then Moved (file_path f1) dest else Copied (file_path f1) dest,
              Skipping (file_path f2),
              Summary 1 2]
       \<and> written (logged (organize_media env (Some [f1, f2]) output_dir move_files
                             (initial_state fs))) = [dest]
       \<and> dest |\<notin>| fs
       \<and> existing (organize_media env (Some [f1, f2]) output_dir move_files (initial_state fs))
           = (if move_files then finsert dest (fs |-| {|file_path f1|}) else finsert dest fs)"
    unfolding run transfer_done [OF ok] by (intro exI [of _ dest]) (simp add: r dest_def)
qed

theorem duplicate_digest_is_skipped_witness:
  "process_file reference_env [''out''] False renamed_copy
      ((initial_state {||})\<lparr>processed_files := {''9e107d9d372bb6826bd81d3542a419d6''}\<rparr>)
     = (False,
        (initial_state {||})
          \<lparr>processed_files := {''9e107d9d372bb6826bd81d3542a419d6''},
           logged := [Skipping [''photos'', ''copy of img.jpg'']]\<rparr>)
   \<and> length (written (logged (organize_media reference_env (Some [failing_photo, renamed_copy])
                                [''out''] False (initial_state {||})))) \<le> 1
   \<and> (\<exists>dest.
         logged (organize_media reference_env (Some [untagged_photo, renamed_copy]) [''out'']
                   False (initial_state {||}))
           = [Found 2, Copied [''photos'', ''img.jpg''] dest,
              Skipping [''photos'', ''copy of img.jpg''], Summary 1 2]
       \<and> written (logged (organize_media reference_env (Some [untagged_photo, renamed_copy])
                             [''out''] False (initial_state {||}))) = [dest]
       \<and> existing (organize_media reference_env (Some [untagged_photo, renamed_copy]) [''out'']
                     False (initial_state {||})) = {|dest|})"
proof -
  have seen: "calculate_file_hash renamed_copy = Some ''9e107d9d372bb6826bd81d3542a419d6''
      \<and> ''9e107d9d372bb6826bd81d3542a419d6'' \<noteq> []
      \<and> ''9e107d9d372bb6826bd81d3542a419d6''
          \<in> processed_files ((initial_state {||})
               \<lparr>processed_files := {''9e107d9d372bb6826bd81d3542a419d6''}\<rparr>)"
    by (simp add: renamed_copy_def untagged_photo_def calculate_file_hash_def)
  have pair: "calculate_file_hash untagged_photo = Some ''9e107d9d372bb6826bd81d3542a419d6''
      \<and> calculate_file_hash renamed_copy = Some ''9e107d9d372bb6826bd81d3542a419d6''
      \<and> ''9e107d9d372bb6826bd81d3542a419d6'' \<noteq> []
      \<and> is_supported_file untagged_photo \<and> is_supported_file renamed_copy
      \<and> transfer_ok untagged_photo"
    by (simp add: renamed_copy_def untagged_photo_def calculate_file_hash_def
        is_supported_file_def path_suffix_def lower_def lower_char_def
        SUPPORTED_EXTENSIONS_def PHOTO_EXTENSIONS_def)
  have pair': "calculate_file_hash failing_photo = Some ''9e107d9d372bb6826bd81d3542a419d6''
      \<and> calculate_file_hash renamed_copy = Some ''9e107d9d372bb6826bd81d3542a419d6''
      \<and> ''9e107d9d372bb6826bd81d3542a419d6'' \<noteq> []
      \<and> is_supported_file failing_photo \<and> is_supported_file renamed_copy"
    by (simp add: failing_photo_def renamed_copy_def untagged_photo_def calculate_file_hash_def
        is_supported_file_def path_suffix_def lower_def lower_char_def
        SUPPORTED_EXTENSIONS_def PHOTO_EXTENSIONS_def)
  note skipped = duplicate_digest_is_skipped
            [where env = reference_env and output_dir = "[''out'']" and move_files = False
               and f = renamed_copy and d = "''9e107d9d372bb6826bd81d3542a419d6''"
               and st = "(initial_state {||})
                           \<lparr>processed_files := {''9e107d9d372bb6826bd81d3542a419d6''}\<rparr>"
               and others = "[]" and n = 0,
             THEN conjunct1, THEN mp, OF seen]
  note most = duplicate_digest_is_skipped
            [where env = reference_env and output_dir = "[''out'']" and move_files = False
               and d = "''9e107d9d372bb6826bd81d3542a419d6''"
               and ?f1.0 = failing_photo and ?f2.0 = renamed_copy and fs = "{||}",
             THEN conjunct2, THEN conjunct1, THEN mp, OF pair']
  note once = duplicate_digest_is_skipped
            [where env = reference_env and output_dir = "[''out'']" and move_files = False
               and d = "''9e107d9d372bb6826bd81d3542a419d6''"
               and ?f1.0 = untagged_photo and ?f2.0 = renamed_copy and fs = "{||}",
             THEN conjunct2, THEN conjunct2, THEN mp, OF pair]
  have skip: "process_file reference_env [''out''] False renamed_copy
      ((initial_state {||})\<lparr>processed_files := {''9e107d9d372bb6826bd81d3542a419d6''}\<rparr>)
     = (False,
        (initial_state {||})
          \<lparr>processed_files := {''9e107d9d372bb6826bd81d3542a419d6''},
           logged := logged ((initial_state {||})
                       \<lparr>processed_files := {''9e107d9d372bb6826bd81d3542a419d6''}\<rparr>)
                     @ [Skipping (file_path renamed_copy)]\<rparr>)"
    using skipped by simp
  have one: "\<exists>dest.
         logged (organize_media reference_env (Some [untagged_photo, renamed_copy]) [''out'']
                   False (initial_state {||}))
           = [Found 2,
              if False then Moved (file_path untagged_photo) dest
              else Copied (file_path untagged_photo) dest,
              Skipping (file_path renamed_copy), Summary 1 2]
       \<and> written (logged (organize_media reference_env (Some [untagged_photo, renamed_copy])
                             [''out''] False (initial_state {||}))) = [dest]
       \<and> dest |\<notin>| {||}
       \<and> existing (organize_media reference_env (Some [untagged_photo, renamed_copy]) [''out'']
                     False (initial_state {||}))
           = (if False then finsert dest ({||} |-| {|file_path untagged_photo|})
              else finsert dest {||})"
    using once by blast
  have paths: "file_path untagged_photo = [''photos'', ''img.jpg'']"
    "file_path renamed_copy = [''photos'', ''copy of img.jpg'']"
    "logged ((initial_state {||})\<lparr>processed_files := P\<rparr>) = []" for P
    by (simp_all add: file_path_def renamed_copy_def untagged_photo_def initial_state_def)
  show ?thesis
    using skip one most unfolding paths by simp
qed

text \<open>
  Claim C9. A file whose hash computation fails (\<open>calculate_file_hash\<close>
  returns \<open>None\<close>) is not skipped as a duplicate and no digest is recorded
  for it; it is processed exactly as the same file with a digest never seen
  before would be (same result, same log, same files, same cache), except that
  \<open>processed_files\<close> stays as it was.
\<close>

theorem hash_failure_bypasses_dedup:
  assumes nohash: "calculate_file_hash f = None"
  shows "\<not> is_duplicate (calculate_file_hash f) st
    \<and> processed_files (snd (process_file env output_dir move_files f st)) = processed_files st
    \<and> (h \<noteq> [] \<and> h \<notin> processed_files st \<longrightarrow>
         process_file env output_dir move_files f st =
           (fst (process_file env output_dir move_files (f\<lparr>md5_hexdigest := Some h\<rparr>) st),
            (snd (process_file env output_dir move_files (f\<lparr>md5_hexdigest := Some h\<rparr>) st))
              \<lparr>processed_files := processed_files st\<rparr>))"
proof (intro conjI impI)
  show fresh: "\<not> is_duplicate (calculate_file_hash f) st"
    by (simp add: nohash is_duplicate_def)
  show "processed_files (snd (process_file env output_dir move_files f st)) = processed_files st"
    by (simp add: process_file_processed_files nohash is_duplicate_def remember_hash_def)
  assume h: "h \<noteq> [] \<and> h \<notin> processed_files st"
  define E where "E = fst (extract_metadata env f)"
  define V where "V = snd (extract_metadata env f)"
  define r where "r = resolve_location env E st"
  define folder where "folder = output_dir @ [year_folder (get_date_taken env f E V),
                                    month_folder (get_date_taken env f E V), fst r]"
  define t where "t = transfer move_files f folder (snd r)"
  have fresh': "\<not> is_duplicate (calculate_file_hash (f\<lparr>md5_hexdigest := Some h\<rparr>)) st"
    using h by (simp add: same_file_but_hash is_duplicate_def)
  have left: "process_file env output_dir move_files f st = t"
    using process_file_fresh [OF fresh, of env output_dir move_files]
    by (simp add: nohash remember_hash_def E_def V_def r_def folder_def t_def)
  have right: "process_file env output_dir move_files (f\<lparr>md5_hexdigest := Some h\<rparr>) st
                 = (fst t, (snd t)\<lparr>processed_files := insert h (processed_files st)\<rparr>)"
    using process_file_fresh [OF fresh', of env output_dir move_files] h
    by (simp add: same_file_but_hash remember_hash_def resolve_location_processed
        transfer_processed E_def V_def r_def folder_def t_def)
  have "processed_files (snd t) = processed_files st"
    by (simp add: t_def r_def)
  then have "(snd t)\<lparr>processed_files := processed_files st\<rparr> = snd t"
    by (metis state.surjective state.update_convs(1))
  then show "process_file env output_dir move_files f st =
           (fst (process_file env output_dir move_files (f\<lparr>md5_hexdigest := Some h\<rparr>) st),
            (snd (process_file env output_dir move_files (f\<lparr>md5_hexdigest := Some h\<rparr>) st))
              \<lparr>processed_files := processed_files st\<rparr>)"
    by (simp add: left right)
qed

theorem hash_failure_bypasses_dedup_witness:
  "\<not> is_duplicate (calculate_file_hash unreadable_photo) (initial_state {||})
   \<and> process_file reference_env [''out''] False unreadable_photo (initial_state {||})
     = (True,
        \<lparr>processed_files = {},
         location_cache = Map.empty,
         existing = {|[''out'', ''2024'', ''05-May'', ''Unknown_Location'', ''img.jpg'']|},
         requests = [],
         logged = [Copied [''photos'', ''img.jpg'']
                     [''out'', ''2024'', ''05-May'', ''Unknown_Location'', ''img.jpg'']]\<rparr>)"
proof -
  have nohash: "calculate_file_hash unreadable_photo = None"
    by (simp add: unreadable_photo_def calculate_file_hash_def)
  have h: "''9e107d9d372bb6826bd81d3542a419d6'' \<noteq> []
         \<and> ''9e107d9d372bb6826bd81d3542a419d6'' \<notin> processed_files (initial_state {||})"
    by (simp add: initial_state_def)
  have same: "unreadable_photo\<lparr>md5_hexdigest := Some ''9e107d9d372bb6826bd81d3542a419d6''\<rparr>
                = untagged_photo"
    by (simp add: unreadable_photo_def untagged_photo_def)
  have hashed: "process_file reference_env [''out''] False untagged_photo (initial_state {||})
     = (True,
        \<lparr>processed_files = {''9e107d9d372bb6826bd81d3542a419d6''},
         location_cache = Map.empty,
         existing = {|[''out'', ''2024'', ''05-May'', ''Unknown_Location'', ''img.jpg'']|},
         requests = [],
         logged = [Copied [''photos'', ''img.jpg'']
                     [''out'', ''2024'', ''05-May'', ''Unknown_Location'', ''img.jpg'']]\<rparr>)"
    by (simp add: untagged_photo_def model_eval)
  show ?thesis
    using hash_failure_bypasses_dedup [OF nohash,
            where st = "initial_state {||}" and h = "''9e107d9d372bb6826bd81d3542a419d6''"
              and env = reference_env and output_dir = "[''out'']" and move_files = False]
          h
    unfolding same hashed
    by (simp add: initial_state_def)
qed

subsection \<open>The geocode cache\<close>



lemma cache_get_Some: "cache_get cache k = Some v \<Longrightarrow> no_nan k \<and> cache k = Some v"
  by (simp add: cache_get_def no_nan_def split: if_splits)










lemma transfer_cache_fields [simp]:
  "requests (snd (transfer move_files f dest_folder st)) = requests st"
  "location_cache (snd (transfer move_files f dest_folder st)) = location_cache st"
  by (simp_all add: transfer_def Let_def)










subsection \<open>Filename conflicts\<close>













end
